theory Spec2Isabelle
  imports Complex_Main "HOL-Library.Word" "HOL-Library.Sublist"
begin

section \<open>Values, parameters and the library functions the repository calls\<close>

text \<open>
  The repository layer (package \<open>repository\<close>, the go-ora based file with
  \<open>CallProcedure\<close>, \<open>convertInputValue\<close>, \<open>createOutputParameter\<close>,
  \<open>processOutputParameters\<close> and \<open>processRowsResult\<close>) works on values of Go's
  empty interface. A value of type \<open>any\<close> is modelled by its dynamic type and payload.
  Go's \<open>float64\<close> and \<open>time.Time\<close> are kept abstract (type parameters \<open>'f\<close> and
  \<open>'t\<close>); \<open>int\<close> and \<open>int64\<close> are 64-bit words; \<open>string\<close> and \<open>[]byte\<close> are
  byte sequences. \<open>VOther\<close> stands for a value of any other dynamic type (a JSON
  array or object, for instance), told apart by a tag. The calls of \<open>log.Printf\<close>
  and the \<open>context.Context\<close> argument have no part in what the functions return and
  are left out.
\<close>

datatype ('f, 't) gval =
    VNil
  | VBool bool
  | VInt "64 word"
  | VInt64 "64 word"
  | VFloat64 'f
  | VString string
  | VBytes string
  | VTime 't
  | VOther nat

text \<open>\<open>request.ProcedureParam\<close>.\<close>

record ('f, 't) ProcedureParam =
  Name :: string
  Type :: string
  Value :: "('f, 't) gval"
  Direction :: string

text \<open>
  The functions of Go's standard library that the code calls are parameters of the
  model: \<open>strings.ToUpper\<close>, \<open>strings.ToLower\<close>, \<open>strings.TrimSpace\<close>,
  \<open>strconv.ParseFloat(v, 64)\<close> (\<open>None\<close> when it returns an error), the conversions
  \<open>float64(v)\<close> from \<open>int\<close> and \<open>int64\<close>, \<open>fmt.Sprintf("%v", v)\<close>,
  \<open>time.Parse(time.RFC3339, v)\<close> (\<open>None\<close> on error), \<open>t.Format(time.RFC3339)\<close>
  and the \<open>%d\<close> verb of \<open>fmt\<close>.
\<close>

record ('f, 't) Lib =
  ToUpper :: "string \<Rightarrow> string"
  ToLower :: "string \<Rightarrow> string"
  TrimSpace :: "string \<Rightarrow> string"
  ParseFloat :: "string \<Rightarrow> 'f option"
  float64_of_int :: "64 word \<Rightarrow> 'f"
  float64_of_int64 :: "64 word \<Rightarrow> 'f"
  Sprintf_v :: "('f, 't) gval \<Rightarrow> string"
  time_Parse_RFC3339 :: "string \<Rightarrow> 't option"
  Format_RFC3339 :: "'t \<Rightarrow> string"
  Sprintf_d :: "nat \<Rightarrow> string"

section \<open>The Binder: \<open>convertInputValue\<close>\<close>

definition numericTypes :: "string list" where
  "numericTypes = [''NUMBER'', ''INTEGER'', ''INT'', ''FLOAT'', ''DOUBLE'']"

definition textTypes :: "string list" where
  "textTypes = [''VARCHAR2'', ''VARCHAR'', ''CHAR'', ''CLOB'', ''NVARCHAR2'', ''NCHAR'', ''NCLOB'']"

definition temporalTypes :: "string list" where
  "temporalTypes = [''DATE'', ''TIMESTAMP'', ''TIMESTAMP WITH TIME ZONE'',
     ''TIMESTAMP WITH LOCAL TIME ZONE'']"

definition binaryTypes :: "string list" where
  "binaryTypes = [''RAW'', ''BLOB'']"

text \<open>
  In the \<open>BOOLEAN\<close> branch the clause \<open>case int, int64, float64: return v != 0\<close>
  lists several types, so \<open>v\<close> keeps the static type \<open>any\<close> there and \<open>v != 0\<close> is a
  comparison of interface values: the untyped constant \<open>0\<close> is converted to \<open>any\<close>
  with its default type \<open>int\<close>, and two interface values are equal only when their
  dynamic types are identical and their values equal. \<open>ne_zero_any\<close> is that
  comparison.
\<close>

definition ne_zero_any :: "('f, 't) gval \<Rightarrow> bool" where
  "ne_zero_any v = (v \<noteq> VInt 0)"

definition convertInputValue :: "('f, 't) Lib \<Rightarrow> ('f, 't) ProcedureParam \<Rightarrow> ('f, 't) gval" where
  "convertInputValue L p =
     (let ty = ToUpper L (Type p) in
      if ty \<in> set numericTypes then
        (case Value p of
           VFloat64 v \<Rightarrow> VFloat64 v
         | VInt v \<Rightarrow> VFloat64 (float64_of_int L v)
         | VInt64 v \<Rightarrow> VFloat64 (float64_of_int64 L v)
         | VString v \<Rightarrow> (case ParseFloat L v of Some f \<Rightarrow> VFloat64 f | None \<Rightarrow> VString v)
         | v \<Rightarrow> v)
      else if ty \<in> set textTypes then VString (Sprintf_v L (Value p))
      else if ty \<in> set temporalTypes then
        (case Value p of
           VString v \<Rightarrow> (case time_Parse_RFC3339 L v of Some t \<Rightarrow> VTime t | None \<Rightarrow> VString v)
         | VTime v \<Rightarrow> VTime v
         | v \<Rightarrow> v)
      else if ty = ''BOOLEAN'' then
        (case Value p of
           VBool v \<Rightarrow> VBool v
         | VString v \<Rightarrow> VBool (ToLower L v = ''true'' \<or> v = ''1'')
         | VInt v \<Rightarrow> VBool (ne_zero_any (Value p))
         | VInt64 v \<Rightarrow> VBool (ne_zero_any (Value p))
         | VFloat64 v \<Rightarrow> VBool (ne_zero_any (Value p))
         | v \<Rightarrow> VBool False)
      else if ty \<in> set binaryTypes then
        (case Value p of
           VBytes v \<Rightarrow> VBytes v
         | VString v \<Rightarrow> VBytes v
         | v \<Rightarrow> v)
      else Value p)"

section \<open>Destinations, bound arguments and the database\<close>

text \<open>
  Errors are their messages: \<open>fmt.Errorf\<close> with \<open>%s\<close> and \<open>%w\<close> concatenates, and
  a function returning \<open>(x, error)\<close> returns a sum with the error on the left.
\<close>

type_synonym error = string

text \<open>
  \<open>sql.NullString\<close>, \<open>sql.NullFloat64\<close>, \<open>sql.NullTime\<close> and \<open>sql.NullInt64\<close>: a
  payload and the \<open>Valid\<close> flag.
\<close>

datatype 'a sqlNull = SqlNull (payload: 'a) (Valid: bool)

text \<open>
  An output destination is a pointer to a fresh variable. Its pointee type is fixed when
  the variable is declared, so the pointer carries it as its constructor; the number is
  the address. \<open>go_ora.RefCursor\<close> is an opaque handle.
\<close>

datatype dest =
    PNullFloat64 nat
  | PNullString nat
  | PNullTime nat
  | PBool nat
  | PBytes nat
  | PAny nat
  | PRefCursor nat

datatype RefCursor = RefCursor nat

text \<open>\<open>go_ora.Out{Dest: ..., Size: ...}\<close>.\<close>

record Out =
  Dest :: dest
  Size :: nat

text \<open>
  The value handed to \<open>sql.Named\<close>: a converted input value, a \<open>go_ora.Out\<close>, or the
  anonymous struct \<open>{In, Out}\<close> built for an INOUT parameter.
\<close>

datatype ('f, 't) argval =
    AVal "('f, 't) gval"
  | AOut Out
  | AInOut "('f, 't) gval" Out

type_synonym ('f, 't) NamedArg = "string \<times> ('f, 't) argval"

text \<open>
  The variables behind the destinations, one typed store per pointee type, as the
  database driver left them when \<open>ExecContext\<close> returned.
\<close>

record ('f, 't) heap =
  nullFloat64s :: "nat \<Rightarrow> 'f sqlNull"
  nullStrings :: "nat \<Rightarrow> string sqlNull"
  nullTimes :: "nat \<Rightarrow> 't sqlNull"
  bools :: "nat \<Rightarrow> bool"
  byteSlices :: "nat \<Rightarrow> string"
  anys :: "nat \<Rightarrow> ('f, 't) gval"
  refCursors :: "nat \<Rightarrow> RefCursor"

text \<open>
  \<open>*sql.Rows\<close>: what \<open>Columns()\<close> returns, the outcome of \<open>Scan\<close> for each row that
  \<open>Next()\<close> delivers (the scanned values by column index, or an error), and what
  \<open>Err()\<close> returns once \<open>Next()\<close> is false. \<open>rowsId\<close> identifies the resource.
\<close>

record ('f, 't) Rows =
  rowsId :: nat
  Columns :: "error + string list"
  scans :: "(error + (nat \<Rightarrow> ('f, 't) gval)) list"
  Err :: "error option"

text \<open>
  What the code does to the database, in order: the executed block with its arguments, a
  cursor being wrapped, a row set handed to the code, a row set closed.
\<close>

datatype ('f, 't) event =
    Exec string "('f, 't) NamedArg list"
  | Wrap RefCursor
  | Acquired nat
  | Closed nat
  | Query string "('f, 't) gval list"

text \<open>A row of \<open>ALL_ARGUMENTS\<close> as the catalog query selects it; \<open>None\<close> is SQL NULL.\<close>

record CatalogRow =
  ARGUMENT_NAME :: "string option"
  DATA_TYPE :: "string option"
  IN_OUT :: "string option"
  POSITION :: "64 word option"
  DEFAULT_VALUE :: "string option"

text \<open>
  The database handle behind \<open>r.db\<close> and the go-ora calls made on it, over a state
  \<open>'s\<close> of its own: \<open>ExecContext\<close> returns an error or the destinations as written,
  \<open>go_ora.WrapRefCursor\<close> an error, no row set, or a row set, and \<open>QueryContext\<close> an
  error or the outcome of \<open>Scan\<close> for each row.
\<close>

record ('f, 't, 's) DB =
  ExecContext :: "'s \<Rightarrow> string \<Rightarrow> ('f, 't) NamedArg list \<Rightarrow> (error + ('f, 't) heap) \<times> 's"
  WrapRefCursor :: "'s \<Rightarrow> RefCursor \<Rightarrow> (error + ('f, 't) Rows option) \<times> 's"
  QueryContext :: "'s \<Rightarrow> string \<Rightarrow> ('f, 't) gval list \<Rightarrow> (error + (error + CatalogRow) list) \<times> 's"

text \<open>
  A value of the result mapping: a scalar (\<open>Scalar VNil\<close> is the explicit null) or the
  rows of a cursor.
\<close>

datatype ('f, 't) rval =
    Scalar "('f, 't) gval"
  | RowsData "(string \<rightharpoonup> ('f, 't) gval) list"

section \<open>The Binder: destinations and the binding loop\<close>

definition isRefCursorType :: "('f, 't) Lib \<Rightarrow> ('f, 't) ProcedureParam \<Rightarrow> bool" where
  "isRefCursorType L p =
     (ToUpper L (Type p) = ''REF CURSOR'' \<or> ToUpper L (Type p) = ''SYS_REFCURSOR'')"

text \<open>\<open>createOutputParameter\<close>; \<open>a\<close> is the address of the variable \<open>out\<close> it declares.\<close>

definition createOutputParameter :: "('f, 't) Lib \<Rightarrow> ('f, 't) ProcedureParam \<Rightarrow> nat \<Rightarrow> Out" where
  "createOutputParameter L p a =
     (let ty = ToUpper L (Type p) in
      if ty \<in> set numericTypes then \<lparr>Dest = PNullFloat64 a, Size = 0\<rparr>
      else if ty \<in> set textTypes then \<lparr>Dest = PNullString a, Size = 4000\<rparr>
      else if ty \<in> set temporalTypes then \<lparr>Dest = PNullTime a, Size = 0\<rparr>
      else if ty = ''BOOLEAN'' then \<lparr>Dest = PBool a, Size = 0\<rparr>
      else if ty \<in> set binaryTypes then \<lparr>Dest = PBytes a, Size = 4000\<rparr>
      else \<lparr>Dest = PAny a, Size = 0\<rparr>)"

text \<open>
  The first loop of \<open>CallProcedure\<close>, with \<open>args\<close> and \<open>outputParams\<close> as they stand
  and \<open>a\<close> the next fresh address. One parameter is bound by \<open>bindParam\<close>.
\<close>

definition bindParam ::
  "('f, 't) Lib \<Rightarrow> ('f, 't) ProcedureParam \<Rightarrow> ('f, 't) NamedArg list \<Rightarrow> (string \<rightharpoonup> dest) \<Rightarrow> nat
   \<Rightarrow> error + (('f, 't) NamedArg list \<times> (string \<rightharpoonup> dest))" where
  "bindParam L p args outputParams a =
     (let d = ToUpper L (Direction p) in
      if d = ''IN'' then
        Inr (args @ [(Name p, AVal (convertInputValue L p))], outputParams)
      else if d = ''OUT'' then
        (if isRefCursorType L p then
           Inr (args @ [(Name p, AOut \<lparr>Dest = PRefCursor a, Size = 0\<rparr>)],
                outputParams(Name p \<mapsto> PRefCursor a))
         else
           (let outParam = createOutputParameter L p a in
            Inr (args @ [(Name p, AOut outParam)], outputParams(Name p \<mapsto> Dest outParam))))
      else if d = ''INOUT'' then
        (let inputValue = convertInputValue L p in
         if isRefCursorType L p then
           Inl ''REF CURSOR cannot be used as INOUT parameter''
         else
           (let outParam = createOutputParameter L p a in
            Inr (args @ [(Name p, AInOut inputValue outParam)],
                 outputParams(Name p \<mapsto> Dest outParam))))
      else Inl (''unsupported parameter direction: '' @ Direction p))"

fun bindParams ::
  "('f, 't) Lib \<Rightarrow> ('f, 't) ProcedureParam list \<Rightarrow> ('f, 't) NamedArg list \<Rightarrow> (string \<rightharpoonup> dest) \<Rightarrow> nat
   \<Rightarrow> error + (('f, 't) NamedArg list \<times> (string \<rightharpoonup> dest))" where
  "bindParams L [] args outputParams a = Inr (args, outputParams)"
| "bindParams L (p # ps) args outputParams a =
     (case bindParam L p args outputParams a of
        Inl e \<Rightarrow> Inl e
      | Inr (args', outputParams') \<Rightarrow> bindParams L ps args' outputParams' (Suc a))"

section \<open>The Invoker: the anonymous block\<close>

text \<open>The second loop of \<open>CallProcedure\<close>; \<open>i\<close> is the loop index.\<close>

fun appendPlaceholders :: "('f, 't) ProcedureParam list \<Rightarrow> nat \<Rightarrow> string \<Rightarrow> string" where
  "appendPlaceholders [] i query = query"
| "appendPlaceholders (p # ps) i query =
     appendPlaceholders ps (Suc i) ((if i > 0 then query @ '', '' else query) @ '':'' @ Name p)"

definition buildQuery :: "string \<Rightarrow> ('f, 't) ProcedureParam list \<Rightarrow> string" where
  "buildQuery name params = appendPlaceholders params 0 (''BEGIN '' @ name @ ''('') @ ''); END;''"

section \<open>The Normalizer\<close>

text \<open>\<open>processRowsResult\<close>: the type switch on a scanned column value.\<close>

definition convertColumn :: "('f, 't) Lib \<Rightarrow> ('f, 't) gval \<Rightarrow> ('f, 't) gval" where
  "convertColumn L v =
     (case v of
        VBytes b \<Rightarrow> VString b
      | VTime t \<Rightarrow> VString (Format_RFC3339 L t)
      | _ \<Rightarrow> v)"

text \<open>The inner loop \<open>for i, colName := range cols\<close> filling \<open>rowMap\<close>.\<close>

definition fillRowMap ::
  "('f, 't) Lib \<Rightarrow> string list \<Rightarrow> (nat \<Rightarrow> ('f, 't) gval) \<Rightarrow> (string \<rightharpoonup> ('f, 't) gval)" where
  "fillRowMap L cols columns =
     fold (\<lambda>(i, colName) rowMap. rowMap(colName \<mapsto> convertColumn L (columns i)))
       (enumerate 0 cols) Map.empty"

text \<open>The loop \<open>for rows.Next()\<close>, with \<open>allRows\<close> as it stands.\<close>

fun scanRows ::
  "('f, 't) Lib \<Rightarrow> string list \<Rightarrow> (error + (nat \<Rightarrow> ('f, 't) gval)) list
   \<Rightarrow> (string \<rightharpoonup> ('f, 't) gval) list \<Rightarrow> error + (string \<rightharpoonup> ('f, 't) gval) list" where
  "scanRows L cols [] allRows = Inr allRows"
| "scanRows L cols (sc # rest) allRows =
     (case sc of
        Inl e \<Rightarrow> Inl (''scan failed: '' @ e)
      | Inr columns \<Rightarrow> scanRows L cols rest (allRows @ [fillRowMap L cols columns]))"

text \<open>
  \<open>processRowsResult\<close>. The deferred \<open>rows.Close()\<close> runs on every return, so each
  outcome comes with the event \<open>Closed\<close>.
\<close>

definition processRowsResult ::
  "('f, 't) Lib \<Rightarrow> ('f, 't) Rows \<Rightarrow> (error + (string \<rightharpoonup> ('f, 't) gval) list) \<times> ('f, 't) event list" where
  "processRowsResult L rows =
     (case Columns rows of
        Inl e \<Rightarrow> (Inl (''failed to get columns: '' @ e), [Closed (rowsId rows)])
      | Inr cols \<Rightarrow>
          (case scanRows L cols (scans rows) [] of
             Inl e \<Rightarrow> (Inl e, [Closed (rowsId rows)])
           | Inr allRows \<Rightarrow>
               (case Err rows of
                  Some e \<Rightarrow> (Inl (''rows iteration error: '' @ e), [Closed (rowsId rows)])
                | None \<Rightarrow> (Inr allRows, [Closed (rowsId rows)]))))"

text \<open>
  \<open>processOutputParameters\<close>: the type switch on a regular destination. A destination
  of no listed type leaves \<open>result\<close> as it is.
\<close>

definition readDest ::
  "('f, 't) heap \<Rightarrow> dest \<Rightarrow> string \<Rightarrow> (string \<rightharpoonup> ('f, 't) rval) \<Rightarrow> (string \<rightharpoonup> ('f, 't) rval)" where
  "readDest h d name result =
     (case d of
        PNullString a \<Rightarrow>
          (if Valid (nullStrings h a) then result(name \<mapsto> Scalar (VString (payload (nullStrings h a))))
           else result(name \<mapsto> Scalar VNil))
      | PNullFloat64 a \<Rightarrow>
          (if Valid (nullFloat64s h a) then result(name \<mapsto> Scalar (VFloat64 (payload (nullFloat64s h a))))
           else result(name \<mapsto> Scalar VNil))
      | PNullTime a \<Rightarrow>
          (if Valid (nullTimes h a) then result(name \<mapsto> Scalar (VTime (payload (nullTimes h a))))
           else result(name \<mapsto> Scalar VNil))
      | PBool a \<Rightarrow> result(name \<mapsto> Scalar (VBool (bools h a)))
      | PBytes a \<Rightarrow> result(name \<mapsto> Scalar (VBytes (byteSlices h a)))
      | PAny a \<Rightarrow> result(name \<mapsto> Scalar (anys h a))
      | PRefCursor a \<Rightarrow> result)"

text \<open>
  The body of the loop of \<open>processOutputParameters\<close> for one parameter, with
  \<open>result\<close> and the database state as they stand: the outcome (\<open>Inr\<close> the updated
  \<open>result\<close>, also after a \<open>continue\<close>; \<open>Inl\<close> the error returned), the database
  state and the events of this iteration.
\<close>

definition processParam ::
  "('f, 't) Lib \<Rightarrow> ('f, 't, 's) DB \<Rightarrow> ('f, 't) heap \<Rightarrow> (string \<rightharpoonup> dest)
   \<Rightarrow> ('f, 't) ProcedureParam \<Rightarrow> (string \<rightharpoonup> ('f, 't) rval) \<Rightarrow> 's
   \<Rightarrow> (error + (string \<rightharpoonup> ('f, 't) rval)) \<times> 's \<times> ('f, 't) event list" where
  "processParam L D h outputParams p result s =
     (if ToUpper L (Direction p) = ''IN'' then (Inr result, s, [])
      else
        (case outputParams (Name p) of
           None \<Rightarrow> (Inr result, s, [])
         | Some d \<Rightarrow>
             (if isRefCursorType L p then
                (case d of
                   PRefCursor a \<Rightarrow>
                     (case WrapRefCursor D s (refCursors h a) of
                        (Inl e, s') \<Rightarrow>
                          (Inl (''failed to wrap REF CURSOR for parameter '' @ Name p @ '': '' @ e),
                           s', [Wrap (refCursors h a)])
                      | (Inr None, s') \<Rightarrow>
                          (Inr (result(Name p \<mapsto> Scalar VNil)), s', [Wrap (refCursors h a)])
                      | (Inr (Some rows), s') \<Rightarrow>
                          (case processRowsResult L rows of
                             (Inl e, evs) \<Rightarrow>
                               (Inl (''failed to process REF CURSOR for parameter '' @ Name p @ '': '' @ e),
                                s', [Wrap (refCursors h a), Acquired (rowsId rows)] @ evs)
                           | (Inr rowsData, evs) \<Rightarrow>
                               (Inr (result(Name p \<mapsto> RowsData rowsData)), s',
                                [Wrap (refCursors h a), Acquired (rowsId rows)] @ evs)))
                 | _ \<Rightarrow> (Inr result, s, []))
              else (Inr (readDest h d (Name p) result), s, []))))"

text \<open>The loop itself; \<open>tr\<close> collects the events.\<close>

fun processLoop ::
  "('f, 't) Lib \<Rightarrow> ('f, 't, 's) DB \<Rightarrow> ('f, 't) heap \<Rightarrow> (string \<rightharpoonup> dest)
   \<Rightarrow> ('f, 't) ProcedureParam list \<Rightarrow> (string \<rightharpoonup> ('f, 't) rval) \<Rightarrow> 's \<Rightarrow> ('f, 't) event list
   \<Rightarrow> (error + (string \<rightharpoonup> ('f, 't) rval)) \<times> 's \<times> ('f, 't) event list" where
  "processLoop L D h outputParams [] result s tr = (Inr result, s, tr)"
| "processLoop L D h outputParams (p # ps) result s tr =
     (case processParam L D h outputParams p result s of
        (Inl e, s', evs) \<Rightarrow> (Inl e, s', tr @ evs)
      | (Inr result', s', evs) \<Rightarrow> processLoop L D h outputParams ps result' s' (tr @ evs))"

definition processOutputParameters ::
  "('f, 't) Lib \<Rightarrow> ('f, 't, 's) DB \<Rightarrow> ('f, 't) heap \<Rightarrow> ('f, 't) ProcedureParam list
   \<Rightarrow> (string \<rightharpoonup> dest) \<Rightarrow> 's \<Rightarrow> ('f, 't) event list
   \<Rightarrow> (error + (string \<rightharpoonup> ('f, 't) rval)) \<times> 's \<times> ('f, 't) event list" where
  "processOutputParameters L D h params outputParams s tr =
     processLoop L D h outputParams params Map.empty s tr"

section \<open>\<open>CallProcedure\<close>\<close>

definition CallProcedure ::
  "('f, 't) Lib \<Rightarrow> ('f, 't, 's) DB \<Rightarrow> 's \<Rightarrow> string \<Rightarrow> ('f, 't) ProcedureParam list
   \<Rightarrow> (error + (string \<rightharpoonup> ('f, 't) rval)) \<times> 's \<times> ('f, 't) event list" where
  "CallProcedure L D s name params =
     (case bindParams L params [] Map.empty 0 of
        Inl e \<Rightarrow> (Inl e, s, [])
      | Inr (args, outputParams) \<Rightarrow>
          (let query = buildQuery name params in
           case ExecContext D s query args of
             (Inl e, s') \<Rightarrow>
               (Inl (''execution failed for procedure '' @ [CHR 0x27] @ name @ [CHR 0x27] @ '': '' @ e),
                s', [Exec query args])
           | (Inr h, s') \<Rightarrow> processOutputParameters L D h params outputParams s' [Exec query args]))"

section \<open>\<open>GetProcedureInfo\<close>\<close>

text \<open>
  The \<open>Scan\<close> methods of \<open>sql.NullString\<close> and \<open>sql.NullInt64\<close> (package
  \<open>database/sql\<close>): SQL NULL leaves the zero payload with \<open>Valid\<close> false.
\<close>

definition scanNullString :: "string option \<Rightarrow> string sqlNull" where
  "scanNullString v = (case v of None \<Rightarrow> SqlNull [] False | Some x \<Rightarrow> SqlNull x True)"

definition scanNullInt64 :: "64 word option \<Rightarrow> 64 word sqlNull" where
  "scanNullInt64 v = (case v of None \<Rightarrow> SqlNull 0 False | Some x \<Rightarrow> SqlNull x True)"

definition procedureInfoQuery :: string where
  "procedureInfoQuery =
     [CHR 0x0A] @ ''        SELECT '' @
     [CHR 0x0A] @ ''            ARGUMENT_NAME,'' @
     [CHR 0x0A] @ ''            DATA_TYPE,'' @
     [CHR 0x0A] @ ''            IN_OUT,'' @
     [CHR 0x0A] @ ''            POSITION,'' @
     [CHR 0x0A] @ ''            DEFAULT_VALUE'' @
     [CHR 0x0A] @ ''        FROM ALL_ARGUMENTS '' @
     [CHR 0x0A] @ ''        WHERE OBJECT_NAME = UPPER(:1)'' @
     [CHR 0x0A] @ ''        AND OWNER = USER'' @
     [CHR 0x0A] @ ''        ORDER BY POSITION'' @
     [CHR 0x0A] @ ''    ''"

text \<open>The map literal built for one scanned row.\<close>

definition infoRow :: "CatalogRow \<Rightarrow> (string \<rightharpoonup> ('f, 't) gval)" where
  "infoRow c =
     (let argName = scanNullString (ARGUMENT_NAME c);
          dataType = scanNullString (DATA_TYPE c);
          inOut = scanNullString (IN_OUT c);
          position = scanNullInt64 (POSITION c);
          defaultValue = scanNullString (DEFAULT_VALUE c)
      in [''argument_name'' \<mapsto> VString (payload argName),
          ''data_type'' \<mapsto> VString (payload dataType),
          ''in_out'' \<mapsto> VString (payload inOut),
          ''position'' \<mapsto> VInt64 (payload position),
          ''default_value'' \<mapsto> VString (payload defaultValue)])"

text \<open>The loop \<open>for rows.Next()\<close> of \<open>GetProcedureInfo\<close>, with \<open>result\<close> as it stands.\<close>

fun scanInfoRows ::
  "(error + CatalogRow) list \<Rightarrow> (string \<rightharpoonup> ('f, 't) gval) list
   \<Rightarrow> error + (string \<rightharpoonup> ('f, 't) gval) list" where
  "scanInfoRows [] result = Inr result"
| "scanInfoRows (sc # rest) result =
     (case sc of
        Inl e \<Rightarrow> Inl (''scan failed: '' @ e)
      | Inr c \<Rightarrow> scanInfoRows rest (result @ [infoRow c]))"

text \<open>
  \<open>GetProcedureInfo\<close>. The row set of the query is closed by the deferred
  \<open>rows.Close()\<close>; it is the row set number \<open>0\<close> of the call.
\<close>

definition GetProcedureInfo ::
  "('f, 't, 's) DB \<Rightarrow> 's \<Rightarrow> string
   \<Rightarrow> (error + (string \<rightharpoonup> ('f, 't) gval) list) \<times> 's \<times> ('f, 't) event list" where
  "GetProcedureInfo D s procedureName =
     (case QueryContext D s procedureInfoQuery [VString procedureName] of
        (Inl e, s') \<Rightarrow>
          (Inl (''failed to query procedure info: '' @ e), s',
           [Query procedureInfoQuery [VString procedureName]])
      | (Inr scs, s') \<Rightarrow>
          (scanInfoRows scs [], s',
           [Query procedureInfoQuery [VString procedureName], Acquired 0, Closed 0]))"

section \<open>Request validation\<close>

text \<open>\<open>request.CallProcedureRequest\<close> and its method \<open>Validate\<close>.\<close>

record ('f, 't) CallProcedureRequest =
  ReqName :: string
  Params :: "('f, 't) ProcedureParam list"

text \<open>The loop \<open>for i, p := range r.Params\<close>; \<open>None\<close> is the \<open>nil\<close> error.\<close>

fun validateParams :: "('f, 't) Lib \<Rightarrow> ('f, 't) ProcedureParam list \<Rightarrow> nat \<Rightarrow> error option" where
  "validateParams L [] i = None"
| "validateParams L (p # ps) i =
     (if TrimSpace L (Name p) \<noteq> [] \<or> TrimSpace L (Type p) \<noteq> [] \<or> TrimSpace L (Direction p) \<noteq> []
      then
        (if TrimSpace L (Name p) = [] then Some (''param['' @ Sprintf_d L i @ ''] name is required'')
         else if TrimSpace L (Type p) = [] then Some (''param['' @ Sprintf_d L i @ ''] type is required'')
         else if TrimSpace L (Direction p) = [] then
           Some (''param['' @ Sprintf_d L i @ ''] direction is required'')
         else validateParams L ps (Suc i))
      else validateParams L ps (Suc i))"

definition Validate :: "('f, 't) Lib \<Rightarrow> ('f, 't) CallProcedureRequest \<Rightarrow> error option" where
  "Validate L r =
     (if TrimSpace L (ReqName r) = [] then Some ''procedure name is required''
      else validateParams L (Params r) 0)"

section \<open>Notions used to state the properties\<close>

text \<open>\<open>strings.Join\<close>.\<close>

fun Join :: "string list \<Rightarrow> string \<Rightarrow> string" where
  "Join [] sep = []"
| "Join [x] sep = x"
| "Join (x # y # ys) sep = x @ sep @ Join (y # ys) sep"

text \<open>
  The configuration errors of the error taxonomy: a REF CURSOR declared INOUT, and an
  unsupported direction.
\<close>

definition configurationError :: "error \<Rightarrow> bool" where
  "configurationError e =
     (e = ''REF CURSOR cannot be used as INOUT parameter'' \<or>
      prefix ''unsupported parameter direction: '' e)"

definition supportedDirection :: "('f, 't) Lib \<Rightarrow> string \<Rightarrow> bool" where
  "supportedDirection L d = (ToUpper L d = ''IN'' \<or> ToUpper L d = ''OUT'' \<or> ToUpper L d = ''INOUT'')"

text \<open>The row sets handed to the code and not yet closed, after the events \<open>tr\<close>.\<close>

fun openRows :: "('f, 't) event list \<Rightarrow> nat list \<Rightarrow> nat list" where
  "openRows [] acc = acc"
| "openRows (Acquired i # tr) acc = openRows tr (i # acc)"
| "openRows (Closed i # tr) acc = openRows tr (remove1 i acc)"
| "openRows (ev # tr) acc = openRows tr acc"

text \<open>The events that execute a block.\<close>

fun isExec :: "('f, 't) event \<Rightarrow> bool" where
  "isExec (Exec query args) = True"
| "isExec ev = False"

text \<open>Whether a blank field stands beside a non-blank one in a parameter entry.\<close>

definition blank :: "('f, 't) Lib \<Rightarrow> string \<Rightarrow> bool" where
  "blank L x = (TrimSpace L x = [])"

definition allBlank :: "('f, 't) Lib \<Rightarrow> ('f, 't) ProcedureParam \<Rightarrow> bool" where
  "allBlank L p = (blank L (Name p) \<and> blank L (Type p) \<and> blank L (Direction p))"

definition noneBlank :: "('f, 't) Lib \<Rightarrow> ('f, 't) ProcedureParam \<Rightarrow> bool" where
  "noneBlank L p = (\<not> blank L (Name p) \<and> \<not> blank L (Type p) \<and> \<not> blank L (Direction p))"

section \<open>A concrete library and database for evaluation\<close>

text \<open>
  An instance of the library on which the model can be run: ASCII case mapping, ASCII
  white space, decimal digits; a \<open>float64\<close> is a real number, a \<open>time.Time\<close> is
  represented by its RFC 3339 text. It agrees with Go on the inputs evaluated below.
\<close>

definition asciiUpper :: "char \<Rightarrow> char" where
  "asciiUpper c =
     (case map_of (zip ''abcdefghijklmnopqrstuvwxyz'' ''ABCDEFGHIJKLMNOPQRSTUVWXYZ'') c of
        Some u \<Rightarrow> u | None \<Rightarrow> c)"

definition asciiLower :: "char \<Rightarrow> char" where
  "asciiLower c =
     (case map_of (zip ''ABCDEFGHIJKLMNOPQRSTUVWXYZ'' ''abcdefghijklmnopqrstuvwxyz'') c of
        Some u \<Rightarrow> u | None \<Rightarrow> c)"

definition asciiSpace :: "char \<Rightarrow> bool" where
  "asciiSpace c = (c \<in> set [CHR '' '', CHR 0x09, CHR 0x0A, CHR 0x0B, CHR 0x0C, CHR 0x0D])"

definition trimSpace :: "string \<Rightarrow> string" where
  "trimSpace x = rev (dropWhile asciiSpace (rev (dropWhile asciiSpace x)))"

definition digitValue :: "char \<Rightarrow> nat option" where
  "digitValue c = map_of (zip ''0123456789'' [0, 1, 2, 3, 4, 5, 6, 7, 8, 9]) c"

fun parseDigits :: "string \<Rightarrow> nat \<Rightarrow> nat option" where
  "parseDigits [] acc = Some acc"
| "parseDigits (c # cs) acc =
     (case digitValue c of None \<Rightarrow> None | Some d \<Rightarrow> parseDigits cs (10 * acc + d))"

definition parseFloat :: "string \<Rightarrow> real option" where
  "parseFloat x = (if x = [] then None else map_option real (parseDigits x 0))"

definition showDigit :: "nat \<Rightarrow> char" where
  "showDigit n = (''0123456789'' ! (n mod 10))"

fun showNat :: "nat \<Rightarrow> string" where
  "showNat n = (if n < 10 then [showDigit n] else showNat (n div 10) @ [showDigit n])"

definition showValue :: "(real, string) gval \<Rightarrow> string" where
  "showValue v =
     (case v of
        VNil \<Rightarrow> ''<nil>''
      | VBool b \<Rightarrow> (if b then ''true'' else ''false'')
      | VInt n \<Rightarrow> showNat (unat n)
      | VInt64 n \<Rightarrow> showNat (unat n)
      | VFloat64 x \<Rightarrow> showNat (nat \<lfloor>x\<rfloor>)
      | VString x \<Rightarrow> x
      | VBytes x \<Rightarrow> x
      | VTime t \<Rightarrow> t
      | VOther k \<Rightarrow> ''?'')"

definition goLib :: "(real, string) Lib" where
  "goLib =
     \<lparr>ToUpper = map asciiUpper,
      ToLower = map asciiLower,
      TrimSpace = trimSpace,
      ParseFloat = parseFloat,
      float64_of_int = (\<lambda>n. real_of_int (sint n)),
      float64_of_int64 = (\<lambda>n. real_of_int (sint n)),
      Sprintf_v = showValue,
      time_Parse_RFC3339 = (\<lambda>x. if x = ''2024-01-02T03:04:05Z'' then Some x else None),
      Format_RFC3339 = (\<lambda>t. t),
      Sprintf_d = showNat\<rparr>"

text \<open>
  A database over the trivial state that executes every block without error and leaves
  the destinations as the heap \<open>h\<close>, wraps cursor \<open>RefCursor k\<close> as \<open>cursors k\<close>, and
  answers the catalog query with \<open>catalog\<close>.
\<close>

definition fixedDB ::
  "(real, string) heap \<Rightarrow> (nat \<Rightarrow> error + (real, string) Rows option) \<Rightarrow> (error + CatalogRow) list
   \<Rightarrow> (real, string, unit) DB" where
  "fixedDB h cursors catalog =
     \<lparr>ExecContext = (\<lambda>s query args. (Inr h, s)),
      WrapRefCursor = (\<lambda>s c. (case c of RefCursor k \<Rightarrow> cursors k, s)),
      QueryContext = (\<lambda>s query args. (Inr catalog, s))\<rparr>"

text \<open>A database on which every call fails.\<close>

definition failingDB :: "(real, string, unit) DB" where
  "failingDB =
     \<lparr>ExecContext = (\<lambda>s query args. (Inl ''ORA-06550'', s)),
      WrapRefCursor = (\<lambda>s c. (Inl ''ORA-01001'', s)),
      QueryContext = (\<lambda>s query args. (Inl ''ORA-00942'', s))\<rparr>"

text \<open>The destinations as a driver that writes nothing leaves them: all zero values.\<close>

definition zeroHeap :: "(real, string) heap" where
  "zeroHeap =
     \<lparr>nullFloat64s = (\<lambda>a. SqlNull 0 False),
      nullStrings = (\<lambda>a. SqlNull [] False),
      nullTimes = (\<lambda>a. SqlNull [] False),
      bools = (\<lambda>a. False),
      byteSlices = (\<lambda>a. []),
      anys = (\<lambda>a. VNil),
      refCursors = (\<lambda>a. RefCursor a)\<rparr>"

definition param :: "string \<Rightarrow> string \<Rightarrow> (real, string) gval \<Rightarrow> string \<Rightarrow> (real, string) ProcedureParam" where
  "param n ty v d = \<lparr>Name = n, Type = ty, Value = v, Direction = d\<rparr>"

section \<open>Further notions and example data\<close>

text \<open>
  A parameter that the binding loop accepts: its direction is supported and it is not a
  REF CURSOR declared INOUT.
\<close>

definition bindable :: "('f, 't) Lib \<Rightarrow> ('f, 't) ProcedureParam \<Rightarrow> bool" where
  "bindable L p =
     (supportedDirection L (Direction p) \<and>
      \<not> (ToUpper L (Direction p) = ''INOUT'' \<and> isRefCursorType L p))"

text \<open>Two parameters that differ at most in the spelling of a direction with the same upper case.\<close>

definition sameButCase ::
  "('f, 't) Lib \<Rightarrow> ('f, 't) ProcedureParam \<Rightarrow> ('f, 't) ProcedureParam \<Rightarrow> bool" where
  "sameButCase L p p' =
     (Name p' = Name p \<and> Type p' = Type p \<and> Value p' = Value p \<and>
      ToUpper L (Direction p') = ToUpper L (Direction p))"

text \<open>A destination heap in which the numeric variable at address 1 holds 1042.\<close>

definition employeeHeap :: "(real, string) heap" where
  "employeeHeap = zeroHeap\<lparr>nullFloat64s := (\<lambda>a. if a = 1 then SqlNull 1042 True else SqlNull 0 False)\<rparr>"

text \<open>A row set of three columns and two rows, and one whose second row fails to scan.\<close>

definition exampleRows :: "(real, string) Rows" where
  "exampleRows =
     \<lparr>rowsId = 7,
      Columns = Inr [''ID'', ''NAME'', ''CREATED''],
      scans =
        [Inr (\<lambda>i. [VInt64 1, VBytes ''Alice'', VTime ''2024-01-02T03:04:05Z''] ! i),
         Inr (\<lambda>i. [VInt64 2, VNil, VString ''n/a''] ! i)],
      Err = None\<rparr>"

definition brokenRows :: "(real, string) Rows" where
  "brokenRows = exampleRows\<lparr>scans := [Inr (\<lambda>i. VNil), Inl ''bad row'']\<rparr>"

text \<open>The example row set whose iteration ends with an error.\<close>

definition interruptedRows :: "(real, string) Rows" where
  "interruptedRows = exampleRows\<lparr>Err := Some ''ORA-01013''\<rparr>"

section \<open>Lemmas\<close>

subsection \<open>The example library\<close>

lemma goLib_simps:
  "ToUpper goLib = map asciiUpper"
  "ToLower goLib = map asciiLower"
  "TrimSpace goLib = trimSpace"
  "ParseFloat goLib = parseFloat"
  "Sprintf_v goLib = showValue"
  "Format_RFC3339 goLib = (\<lambda>t. t)"
  "Sprintf_d goLib = showNat"
  by (simp_all add: goLib_def)

lemmas typeLists = numericTypes_def textTypes_def temporalTypes_def binaryTypes_def


subsection \<open>Row materialization\<close>

lemma fold_rowMap_other:
  "c \<notin> set cols \<Longrightarrow>
   fold (\<lambda>(i, colName) rowMap. rowMap(colName \<mapsto> g i)) (enumerate n cols) m c = m c"
  by (induction cols arbitrary: n m) auto

lemma fold_rowMap_dom:
  "dom (fold (\<lambda>(i, colName) rowMap. rowMap(colName \<mapsto> g i)) (enumerate n cols) m) =
   dom m \<union> set cols"
  by (induction cols arbitrary: n m) auto

lemma fold_rowMap_last:
  "i < length cols \<Longrightarrow> (\<forall>k<length cols. i < k \<longrightarrow> cols ! k \<noteq> cols ! i) \<Longrightarrow>
   fold (\<lambda>(i, colName) rowMap. rowMap(colName \<mapsto> g i)) (enumerate n cols) m (cols ! i) =
   Some (g (n + i))"
proof (induction cols arbitrary: n m i)
  case Nil
  then show ?case by simp
next
  case (Cons c cols)
  show ?case
  proof (cases i)
    case 0
    have "c \<notin> set cols"
    proof
      assume "c \<in> set cols"
      then obtain k where "k < length cols" "cols ! k = c" by (auto simp: in_set_conv_nth)
      with Cons.prems(2) 0 show False by (auto dest: spec[of _ "Suc k"])
    qed
    then have "fold (\<lambda>(i, colName) rowMap. rowMap(colName \<mapsto> g i)) (enumerate (Suc n) cols)
                 (m(c \<mapsto> g n)) c = (m(c \<mapsto> g n)) c"
      by (rule fold_rowMap_other)
    also have "\<dots> = Some (g n)" by simp
    finally show ?thesis using 0 by (simp del: fun_upd_apply)
  next
    case (Suc j)
    have "j < length cols" using Cons.prems(1) Suc by simp
    moreover have "\<forall>k<length cols. j < k \<longrightarrow> cols ! k \<noteq> cols ! j"
      using Cons.prems(2) Suc by (auto dest: spec[of _ "Suc k" for k])
    ultimately show ?thesis using Cons.IH[of j "Suc n"] Suc by simp
  qed
qed

lemma fillRowMap_dom: "dom (fillRowMap L cols columns) = set cols"
  by (simp add: fillRowMap_def fold_rowMap_dom)

lemma fillRowMap_last:
  "i < length cols \<Longrightarrow> (\<forall>k<length cols. i < k \<longrightarrow> cols ! k \<noteq> cols ! i) \<Longrightarrow>
   fillRowMap L cols columns (cols ! i) = Some (convertColumn L (columns i))"
  using fold_rowMap_last[of i cols "\<lambda>i. convertColumn L (columns i)" 0 Map.empty]
  by (simp add: fillRowMap_def)

lemma scanRows_Inr:
  "scanRows L cols scs acc = Inr out \<Longrightarrow>
   \<exists>vals. scs = map Inr vals \<and> out = acc @ map (fillRowMap L cols) vals"
proof (induction scs arbitrary: acc)
  case Nil
  then show ?case by simp
next
  case (Cons sc scs)
  then obtain columns where sc: "sc = Inr columns"
    and rest: "scanRows L cols scs (acc @ [fillRowMap L cols columns]) = Inr out"
    by (auto split: sum.splits)
  from Cons.IH[OF rest] obtain vals where
    "scs = map Inr vals" "out = (acc @ [fillRowMap L cols columns]) @ map (fillRowMap L cols) vals"
    by blast
  then have "sc # scs = map Inr (columns # vals) \<and> out = acc @ map (fillRowMap L cols) (columns # vals)"
    using sc by simp
  then show ?case by (rule exI[of _ "columns # vals"])
qed

lemma scanRows_map_Inr:
  "scanRows L cols (map Inr vals) acc = Inr (acc @ map (fillRowMap L cols) vals)"
  by (induction vals arbitrary: acc) auto

lemma processRowsResult_Inr:
  assumes "processRowsResult L rows = (Inr out, evs)"
  shows "\<exists>cols vals. Columns rows = Inr cols \<and> scans rows = map Inr vals \<and> Err rows = None \<and>
           out = map (fillRowMap L cols) vals"
  using assms
  by (auto simp: processRowsResult_def split: sum.splits option.splits dest!: scanRows_Inr)

lemma processRowsResult_closes: "snd (processRowsResult L rows) = [Closed (rowsId rows)]"
  by (simp add: processRowsResult_def split: sum.splits option.splits)



subsection \<open>Destinations recorded by the binding loop\<close>

lemma createOutputParameter_not_cursor:
  "Dest (createOutputParameter L p a) \<noteq> PRefCursor b"
  by (simp add: createOutputParameter_def Let_def)

lemma bindParam_Inr_outs:
  assumes "bindParam L p args outs a = Inr (args', outs')"
  shows "(ToUpper L (Direction p) = ''IN'' \<and> outs' = outs) \<or>
         (ToUpper L (Direction p) \<noteq> ''IN'' \<and>
          (\<exists>d. outs' = outs(Name p \<mapsto> d) \<and> (isRefCursorType L p \<longleftrightarrow> (\<exists>b. d = PRefCursor b))))"
  using assms
  by (auto simp: bindParam_def Let_def createOutputParameter_not_cursor split: if_splits)

lemma bindParams_outs_other:
  "bindParams L ps args outs a = Inr (args', outs') \<Longrightarrow>
   \<forall>r\<in>set ps. ToUpper L (Direction r) \<noteq> ''IN'' \<longrightarrow> Name r \<noteq> n \<Longrightarrow> outs' n = outs n"
proof (induction ps arbitrary: args outs a)
  case Nil
  then show ?case by simp
next
  case (Cons p ps)
  from Cons.prems(1) obtain args1 outs1 where
    b: "bindParam L p args outs a = Inr (args1, outs1)"
    and r: "bindParams L ps args1 outs1 (Suc a) = Inr (args', outs')"
    by (auto split: sum.splits)
  have "outs' n = outs1 n" using Cons.IH[OF r] Cons.prems(2) by simp
  moreover have "outs1 n = outs n"
    using bindParam_Inr_outs[OF b] Cons.prems(2) by auto
  ultimately show ?case by simp
qed

text \<open>The destination recorded under a name is the one of the last non-IN parameter of that name.\<close>

lemma bindParams_outs_last:
  "bindParams L ps args outs a = Inr (args', outs') \<Longrightarrow>
   ps = ps1 @ q # ps2 \<Longrightarrow> ToUpper L (Direction q) \<noteq> ''IN'' \<Longrightarrow>
   \<forall>r\<in>set ps2. ToUpper L (Direction r) \<noteq> ''IN'' \<longrightarrow> Name r \<noteq> Name q \<Longrightarrow>
   \<exists>d. outs' (Name q) = Some d \<and> (isRefCursorType L q \<longleftrightarrow> (\<exists>b. d = PRefCursor b))"
proof (induction ps arbitrary: args outs a ps1)
  case Nil
  then show ?case by simp
next
  case (Cons p ps)
  from Cons.prems(1) obtain args1 outs1 where
    b: "bindParam L p args outs a = Inr (args1, outs1)"
    and r: "bindParams L ps args1 outs1 (Suc a) = Inr (args', outs')"
    by (auto split: sum.splits)
  show ?case
  proof (cases ps1)
    case Nil
    then have pq: "p = q" "ps = ps2" using Cons.prems(2) by simp_all
    have "outs' (Name q) = outs1 (Name q)"
      using bindParams_outs_other[OF r] Cons.prems(4) pq by simp
    then show ?thesis using bindParam_Inr_outs[OF b] Cons.prems(3) pq by auto
  next
    case (Cons x xs)
    then have "ps = xs @ q # ps2" using Cons.prems(2) by simp
    from Cons.IH[OF r this Cons.prems(3) Cons.prems(4)] show ?thesis .
  qed
qed

subsection \<open>Reading the destinations\<close>

lemma readDest_dom:
  "dom (readDest h d n result) = (if (\<exists>b. d = PRefCursor b) then dom result else insert n (dom result))"
  by (cases d) (auto simp: readDest_def)

lemma processParam_Inr_cases:
  assumes "processParam L D h outs p result s = (Inr result', s', evs)"
  shows "(ToUpper L (Direction p) = ''IN'' \<and> result' = result) \<or>
         (ToUpper L (Direction p) \<noteq> ''IN'' \<and> outs (Name p) = None \<and> result' = result) \<or>
         (ToUpper L (Direction p) \<noteq> ''IN'' \<and>
          (\<exists>d. outs (Name p) = Some d \<and>
             ((isRefCursorType L p \<and> (\<exists>b. d = PRefCursor b) \<and> (\<exists>v. result' = result(Name p \<mapsto> v))) \<or>
              (isRefCursorType L p \<and> (\<forall>b. d \<noteq> PRefCursor b) \<and> result' = result) \<or>
              (\<not> isRefCursorType L p \<and> result' = readDest h d (Name p) result))))"
proof (cases "ToUpper L (Direction p) = ''IN''")
  case True
  then show ?thesis using assms by (simp add: processParam_def)
next
  case dir: False
  show ?thesis
  proof (cases "outs (Name p)")
    case None
    then show ?thesis using assms dir by (simp add: processParam_def)
  next
    case (Some d)
    show ?thesis
    proof (cases "isRefCursorType L p")
      case False
      then show ?thesis using assms dir Some by (simp add: processParam_def)
    next
      case cur: True
      show ?thesis
      proof (cases "\<exists>b. d = PRefCursor b")
        case False
        then have "result' = result"
          using assms dir Some cur by (cases d) (simp_all add: processParam_def)
        then show ?thesis using dir Some cur False by simp
      next
        case True
        then obtain b where d: "d = PRefCursor b" by blast
        have "\<exists>v. result' = result(Name p \<mapsto> v)"
          using assms dir Some cur d
          by (simp add: processParam_def split: prod.splits sum.splits option.splits) blast+
        then show ?thesis using dir Some cur d by simp
      qed
    qed
  qed
qed

lemma processParam_Inr_dom:
  assumes "processParam L D h outs p result s = (Inr result', s', evs)"
  shows "(dom result' = dom result \<or> dom result' = insert (Name p) (dom result)) \<and>
         (ToUpper L (Direction p) = ''IN'' \<longrightarrow> dom result' = dom result) \<and>
         (ToUpper L (Direction p) \<noteq> ''IN'' \<longrightarrow>
            (\<exists>d. outs (Name p) = Some d \<and> (isRefCursorType L p \<longleftrightarrow> (\<exists>b. d = PRefCursor b))) \<longrightarrow>
            dom result' = insert (Name p) (dom result))"
  using processParam_Inr_cases[OF assms]
  by (elim disjE conjE exE) (simp_all add: readDest_dom)

lemma processParam_dom_mono:
  assumes "processParam L D h outs p result s = (Inr result', s', evs)"
  shows "dom result \<subseteq> dom result'"
proof -
  have "dom result' = dom result \<or> dom result' = insert (Name p) (dom result)"
    using processParam_Inr_dom[OF assms] by simp
  then show ?thesis by (elim disjE) (simp_all add: subset_insertI)
qed

lemma processParam_dom_upper:
  assumes "processParam L D h outs p result s = (Inr result', s', evs)"
  shows "dom result' \<subseteq> dom result \<union> Name ` {x \<in> {p}. ToUpper L (Direction x) \<noteq> ''IN''}"
proof (cases "ToUpper L (Direction p) = ''IN''")
  case True
  then have "dom result' = dom result" using processParam_Inr_dom[OF assms] by simp
  then show ?thesis by simp
next
  case False
  have "dom result' = dom result \<or> dom result' = insert (Name p) (dom result)"
    using processParam_Inr_dom[OF assms] by simp
  then show ?thesis using False by (elim disjE) auto
qed

lemma processParam_dom_sets:
  assumes "processParam L D h outs p result s = (Inr result', s', evs)"
    and "ToUpper L (Direction p) \<noteq> ''IN''"
    and "outs (Name p) = Some d" and "isRefCursorType L p \<longleftrightarrow> (\<exists>b. d = PRefCursor b)"
  shows "Name p \<in> dom result'"
proof -
  have "dom result' = insert (Name p) (dom result)"
    using processParam_Inr_dom[OF assms(1)] assms(2,3,4) by simp
  then show ?thesis by simp
qed

lemma split_last_nonIn:
  assumes "q \<in> set ps" "ToUpper L (Direction q) \<noteq> ''IN''"
  shows "\<exists>ps1 q' ps2. ps = ps1 @ q' # ps2 \<and> Name q' = Name q \<and> ToUpper L (Direction q') \<noteq> ''IN'' \<and>
           (\<forall>r\<in>set ps2. ToUpper L (Direction r) \<noteq> ''IN'' \<longrightarrow> Name r \<noteq> Name q)"
proof -
  let ?P = "\<lambda>r. ToUpper L (Direction r) \<noteq> ''IN'' \<and> Name r = Name q"
  have "\<exists>x\<in>set ps. ?P x" using assms by blast
  from split_list_last_prop[OF this] obtain ps1 q' ps2 where
    "ps = ps1 @ q' # ps2" "?P q'" "\<forall>r\<in>set ps2. \<not> ?P r" by blast
  then show ?thesis by blast
qed

lemma processLoop_Cons_Inr:
  assumes "processLoop L D h outs (p # ps) result s tr = (Inr result', s', tr')"
  shows "\<exists>r1 s1 evs. processParam L D h outs p result s = (Inr r1, s1, evs) \<and>
           processLoop L D h outs ps r1 s1 (tr @ evs) = (Inr result', s', tr')"
proof -
  obtain res s1 evs where st: "processParam L D h outs p result s = (res, s1, evs)"
    by (cases "processParam L D h outs p result s") auto
  show ?thesis
  proof (cases res)
    case (Inl e)
    then show ?thesis using assms st by simp
  next
    case (Inr r1)
    then show ?thesis using assms st by simp
  qed
qed

lemma processLoop_dom_mono:
  "processLoop L D h outs ps result s tr = (Inr result', s', tr') \<Longrightarrow> dom result \<subseteq> dom result'"
proof (induction ps arbitrary: result s tr)
  case Nil
  then show ?case by simp
next
  case (Cons p ps)
  from processLoop_Cons_Inr[OF Cons.prems] obtain r1 s1 evs where
    st: "processParam L D h outs p result s = (Inr r1, s1, evs)"
    and rest: "processLoop L D h outs ps r1 s1 (tr @ evs) = (Inr result', s', tr')"
    by blast
  from processParam_dom_mono[OF st] Cons.IH[OF rest] show ?case by (rule subset_trans)
qed

lemma processLoop_dom_upper:
  "processLoop L D h outs ps result s tr = (Inr result', s', tr') \<Longrightarrow>
   dom result' \<subseteq> dom result \<union> Name ` {p \<in> set ps. ToUpper L (Direction p) \<noteq> ''IN''}"
proof (induction ps arbitrary: result s tr)
  case Nil
  then show ?case by simp
next
  case (Cons p ps)
  from processLoop_Cons_Inr[OF Cons.prems] obtain r1 s1 evs where
    st: "processParam L D h outs p result s = (Inr r1, s1, evs)"
    and rest: "processLoop L D h outs ps r1 s1 (tr @ evs) = (Inr result', s', tr')"
    by blast
  have a: "dom r1 \<subseteq> dom result \<union> Name ` {x \<in> {p}. ToUpper L (Direction x) \<noteq> ''IN''}"
    using processParam_dom_upper[OF st] .
  have b: "dom result' \<subseteq> dom r1 \<union> Name ` {x \<in> set ps. ToUpper L (Direction x) \<noteq> ''IN''}"
    using Cons.IH[OF rest] .
  have c: "{x \<in> set (p # ps). ToUpper L (Direction x) \<noteq> ''IN''} =
           {x \<in> {p}. ToUpper L (Direction x) \<noteq> ''IN''} \<union> {x \<in> set ps. ToUpper L (Direction x) \<noteq> ''IN''}"
    by auto
  show ?case unfolding c image_Un using a b by blast
qed

lemma processLoop_dom_last:
  "processLoop L D h outs ps result s tr = (Inr result', s', tr') \<Longrightarrow>
   ps = ps1 @ q # ps2 \<Longrightarrow> ToUpper L (Direction q) \<noteq> ''IN'' \<Longrightarrow>
   outs (Name q) = Some d \<Longrightarrow> (isRefCursorType L q \<longleftrightarrow> (\<exists>b. d = PRefCursor b)) \<Longrightarrow>
   Name q \<in> dom result'"
proof (induction ps arbitrary: result s tr ps1)
  case Nil
  then show ?case by simp
next
  case (Cons p ps)
  from processLoop_Cons_Inr[OF Cons.prems(1)] obtain r1 s1 evs where
    st: "processParam L D h outs p result s = (Inr r1, s1, evs)"
    and rest: "processLoop L D h outs ps r1 s1 (tr @ evs) = (Inr result', s', tr')"
    by blast
  show ?case
  proof (cases ps1)
    case Nil
    then have pq: "p = q" using Cons.prems(2) by simp
    have "Name q \<in> dom r1"
      using processParam_dom_sets[OF st] Cons.prems(3,4,5) pq by simp
    then show ?thesis using processLoop_dom_mono[OF rest] by blast
  next
    case (Cons x xs)
    then have "ps = xs @ q # ps2" using Cons.prems(2) by simp
    from Cons.IH[OF rest this Cons.prems(3,4,5)] show ?thesis .
  qed
qed

lemma CallProcedure_Inr:
  assumes "CallProcedure L D s name params = (Inr result, s', tr)"
  shows "\<exists>args outs h s0.
           bindParams L params [] Map.empty 0 = Inr (args, outs) \<and>
           ExecContext D s (buildQuery name params) args = (Inr h, s0) \<and>
           processLoop L D h outs params Map.empty s0 [Exec (buildQuery name params) args]
             = (Inr result, s', tr)"
  using assms
  by (auto simp: CallProcedure_def processOutputParameters_def Let_def
           split: sum.splits prod.splits)


subsection \<open>Failures of the binding loop\<close>

lemma bindParam_unsupported:
  "\<not> supportedDirection L (Direction p) \<Longrightarrow>
   bindParam L p args outs a = Inl (''unsupported parameter direction: '' @ Direction p)"
  by (simp add: bindParam_def supportedDirection_def)

lemma bindParam_cursor_inout:
  "ToUpper L (Direction p) = ''INOUT'' \<Longrightarrow> isRefCursorType L p \<Longrightarrow>
   bindParam L p args outs a = Inl ''REF CURSOR cannot be used as INOUT parameter''"
  by (simp add: bindParam_def)

lemma bindParam_bindable:
  "bindable L p \<Longrightarrow> \<exists>args' outs'. bindParam L p args outs a = Inr (args', outs')"
  by (auto simp: bindable_def supportedDirection_def bindParam_def Let_def)

lemma bindParam_Inl:
  "bindParam L p args outs a = Inl e \<Longrightarrow>
   (\<not> supportedDirection L (Direction p) \<and> e = ''unsupported parameter direction: '' @ Direction p) \<or>
   (ToUpper L (Direction p) = ''INOUT'' \<and> isRefCursorType L p \<and>
    e = ''REF CURSOR cannot be used as INOUT parameter'')"
  by (auto simp: supportedDirection_def bindParam_def Let_def split: if_splits)

lemma bindParams_first_failure:
  "\<forall>q\<in>set ps1. bindable L q \<Longrightarrow> (\<And>args outs a. bindParam L p args outs a = Inl e) \<Longrightarrow>
   bindParams L (ps1 @ p # ps2) args outs a = Inl e"
proof (induction ps1 arbitrary: args outs a)
  case Nil
  then show ?case by simp
next
  case (Cons x xs)
  from bindParam_bindable[of L x args outs a] Cons.prems(1)
  obtain args' outs' where "bindParam L x args outs a = Inr (args', outs')" by auto
  then show ?case using Cons.IH[OF _ Cons.prems(2)] Cons.prems(1) by simp
qed

lemma bindParams_Inl:
  "bindParams L ps args outs a = Inl e \<Longrightarrow>
   \<exists>p\<in>set ps. bindParam L p args outs a = Inl e \<or> (\<exists>args' outs' a'. bindParam L p args' outs' a' = Inl e)"
proof (induction ps arbitrary: args outs a)
  case Nil
  then show ?case by simp
next
  case (Cons x xs)
  show ?case
  proof (cases "bindParam L x args outs a")
    case (Inl e')
    then show ?thesis using Cons.prems by auto
  next
    case (Inr r)
    then obtain args' outs' where "r = (args', outs')" by (cases r)
    then have "bindParams L xs args' outs' (Suc a) = Inl e" using Cons.prems Inr by simp
    from Cons.IH[OF this] show ?thesis by auto
  qed
qed

lemma bindParams_Inl_configurationError:
  assumes "bindParams L ps args outs a = Inl e"
  shows "configurationError e"
proof -
  from bindParams_Inl[OF assms] obtain p args' outs' a' where
    "bindParam L p args' outs' a' = Inl e" by blast
  from bindParam_Inl[OF this] show ?thesis
    by (auto simp: configurationError_def)
qed

lemma bindParams_Inr_bindable:
  "bindParams L ps args outs a = Inr r \<Longrightarrow> \<forall>p\<in>set ps. bindable L p"
proof (induction ps arbitrary: args outs a)
  case Nil
  then show ?case by simp
next
  case (Cons x xs)
  from Cons.prems obtain args' outs' where
    b: "bindParam L x args outs a = Inr (args', outs')"
    and r: "bindParams L xs args' outs' (Suc a) = Inr r"
    by (auto split: sum.splits)
  have "bindable L x"
  proof (rule ccontr)
    assume "\<not> bindable L x"
    then have "\<not> supportedDirection L (Direction x) \<or>
        (ToUpper L (Direction x) = ''INOUT'' \<and> isRefCursorType L x)"
      by (auto simp: bindable_def)
    then show False using b bindParam_unsupported[of L x args outs a]
        bindParam_cursor_inout[of L x args outs a] by auto
  qed
  then show ?case using Cons.IH[OF r] by simp
qed

lemma CallProcedure_bind_failure:
  "bindParams L params [] Map.empty 0 = Inl e \<Longrightarrow> CallProcedure L D s name params = (Inl e, s, [])"
  by (simp add: CallProcedure_def)

lemma bindParams_unbindable_fails:
  assumes "p \<in> set ps" "\<not> bindable L p"
  shows "\<exists>e. bindParams L ps args outs a = Inl e"
proof (cases "bindParams L ps args outs a")
  case (Inl e)
  then show ?thesis by blast
next
  case (Inr r)
  from bindParams_Inr_bindable[OF this] assms show ?thesis by blast
qed


subsection \<open>Spelling of directions\<close>

lemma sameButCase_bindParam:
  assumes "sameButCase L p p'" "supportedDirection L (Direction p)"
  shows "bindParam L p' args outs a = bindParam L p args outs a"
proof -
  have n: "Name p' = Name p" and d: "ToUpper L (Direction p') = ToUpper L (Direction p)"
    and c: "isRefCursorType L p' = isRefCursorType L p"
    using assms(1) by (simp_all add: sameButCase_def isRefCursorType_def)
  have ty: "Type p' = Type p" and v: "Value p' = Value p"
    using assms(1) by (simp_all add: sameButCase_def)
  have conv: "convertInputValue L p' = convertInputValue L p"
    unfolding convertInputValue_def ty v by (rule refl)
  have cr: "createOutputParameter L p' a = createOutputParameter L p a"
    unfolding createOutputParameter_def ty by (rule refl)
  show ?thesis
    using assms(2) unfolding bindParam_def n d c conv cr supportedDirection_def Let_def
    by auto
qed

lemma sameButCase_processParam:
  assumes "sameButCase L p p'"
  shows "processParam L D h outs p' result s = processParam L D h outs p result s"
proof -
  have n: "Name p' = Name p" and d: "ToUpper L (Direction p') = ToUpper L (Direction p)"
    and c: "isRefCursorType L p' = isRefCursorType L p"
    using assms by (simp_all add: sameButCase_def isRefCursorType_def)
  show ?thesis unfolding processParam_def n d c by (rule refl)
qed

lemma sameButCase_bindParams:
  "list_all2 (sameButCase L) ps ps' \<Longrightarrow> \<forall>p\<in>set ps. supportedDirection L (Direction p) \<Longrightarrow>
   bindParams L ps' args outs a = bindParams L ps args outs a"
proof (induction ps ps' arbitrary: args outs a rule: list_all2_induct)
  case Nil
  then show ?case by simp
next
  case (Cons p ps p' ps')
  have "bindParam L p' args outs a = bindParam L p args outs a"
    using Cons.hyps(1) Cons.prems by (simp add: sameButCase_bindParam)
  then show ?case using Cons.IH Cons.prems by (simp split: sum.splits)
qed

lemma sameButCase_processLoop:
  "list_all2 (sameButCase L) ps ps' \<Longrightarrow>
   processLoop L D h outs ps' result s tr = processLoop L D h outs ps result s tr"
proof (induction ps ps' arbitrary: result s tr rule: list_all2_induct)
  case Nil
  then show ?case by simp
next
  case (Cons p ps p' ps')
  have "processParam L D h outs p' result s = processParam L D h outs p result s"
    using Cons.hyps(1) by (rule sameButCase_processParam)
  then show ?case using Cons.IH by (simp split: sum.splits prod.splits)
qed

lemma sameButCase_appendPlaceholders:
  "list_all2 (sameButCase L) ps ps' \<Longrightarrow> appendPlaceholders ps' i q = appendPlaceholders ps i q"
proof (induction ps ps' arbitrary: i q rule: list_all2_induct)
  case Nil
  then show ?case by simp
next
  case (Cons p ps p' ps')
  then show ?case by (simp add: sameButCase_def)
qed

lemma sameButCase_CallProcedure:
  assumes "list_all2 (sameButCase L) params params'"
    and "\<forall>p\<in>set params. supportedDirection L (Direction p)"
  shows "CallProcedure L D s name params' = CallProcedure L D s name params"
proof -
  have b: "bindParams L params' [] Map.empty 0 = bindParams L params [] Map.empty 0"
    using assms by (rule sameButCase_bindParams)
  have q: "buildQuery name params' = buildQuery name params"
    using sameButCase_appendPlaceholders[OF assms(1)] by (simp add: buildQuery_def)
  have l: "processOutputParameters L D h params' outs s0 tr =
           processOutputParameters L D h params outs s0 tr" for h outs s0 tr
    using sameButCase_processLoop[OF assms(1)] by (simp add: processOutputParameters_def)
  show ?thesis unfolding CallProcedure_def b q l by (rule refl)
qed

subsection \<open>The text of the block\<close>

lemma Join_Cons: "Join (x # xs) sep = x @ (if xs = [] then [] else sep @ Join xs sep)"
  by (cases xs) simp_all

lemma appendPlaceholders_Join:
  "appendPlaceholders ps i q =
     q @ (if 0 < i \<and> ps \<noteq> [] then '', '' else []) @ Join (map (\<lambda>p. '':'' @ Name p) ps) '', ''"
proof (induction ps arbitrary: i q)
  case Nil
  then show ?case by simp
next
  case (Cons p ps)
  show ?case by (simp add: Cons.IH Join_Cons)
qed

lemma buildQuery_Join:
  "buildQuery name params =
     ''BEGIN '' @ name @ ''('' @ Join (map (\<lambda>p. '':'' @ Name p) params) '', '' @ ''); END;''"
  by (simp add: buildQuery_def appendPlaceholders_Join)

lemma bindParam_Inr_args:
  "bindParam L p args outs a = Inr (args', outs') \<Longrightarrow> \<exists>v. args' = args @ [(Name p, v)]"
  by (auto simp: bindParam_def Let_def split: if_splits)

lemma bindParams_Inr_args:
  "bindParams L ps args outs a = Inr (args', outs') \<Longrightarrow>
   map fst args' = map fst args @ map Name ps"
proof (induction ps arbitrary: args outs a)
  case Nil
  then show ?case by simp
next
  case (Cons p ps)
  from Cons.prems obtain args1 outs1 where
    b: "bindParam L p args outs a = Inr (args1, outs1)"
    and r: "bindParams L ps args1 outs1 (Suc a) = Inr (args', outs')"
    by (auto split: sum.splits)
  from bindParam_Inr_args[OF b] Cons.IH[OF r] show ?case by auto
qed


subsection \<open>Events of result processing\<close>


lemma processParam_events:
  assumes "processParam L D h outs p result s = (res, s', evs)"
  shows "evs = [] \<or> (\<exists>c. evs = [Wrap c]) \<or> (\<exists>c i. evs = [Wrap c, Acquired i, Closed i])"
proof (cases "ToUpper L (Direction p) \<noteq> ''IN'' \<and> isRefCursorType L p \<and>
              (\<exists>a. outs (Name p) = Some (PRefCursor a))")
  case False
  then have "evs = []" using assms
    by (auto simp: processParam_def split: if_splits option.splits dest.splits)
  then show ?thesis by simp
next
  case True
  then obtain a where a: "outs (Name p) = Some (PRefCursor a)" by blast
  obtain w s1 where w: "WrapRefCursor D s (refCursors h a) = (w, s1)"
    by (cases "WrapRefCursor D s (refCursors h a)")
  show ?thesis
  proof (cases w)
    case (Inl e)
    then show ?thesis using assms True a w by (auto simp: processParam_def)
  next
    case (Inr ro)
    show ?thesis
    proof (cases ro)
      case None
      then show ?thesis using assms True a w Inr by (auto simp: processParam_def)
    next
      case (Some rows)
      obtain r evs' where r: "processRowsResult L rows = (r, evs')"
        by (cases "processRowsResult L rows")
      then have "evs' = [Closed (rowsId rows)]" using processRowsResult_closes[of L rows] by simp
      then show ?thesis using assms True a w Inr Some r
        by (cases r) (auto simp: processParam_def)
    qed
  qed
qed

lemma openRows_append: "openRows (tr @ evs) acc = openRows evs (openRows tr acc)"
  by (induction tr acc rule: openRows.induct) simp_all

lemma processParam_openRows:
  assumes "processParam L D h outs p result s = (res, s', evs)"
  shows "openRows evs acc = acc"
  using processParam_events[OF assms] by auto

lemma processLoop_openRows:
  "processLoop L D h outs ps result s tr = (res, s', tr') \<Longrightarrow> openRows tr' acc = openRows tr acc"
proof (induction ps arbitrary: result s tr)
  case Nil
  then show ?case by simp
next
  case (Cons p ps)
  obtain r s1 evs where st: "processParam L D h outs p result s = (r, s1, evs)"
    by (cases "processParam L D h outs p result s") auto
  have ev: "openRows (tr @ evs) acc = openRows tr acc"
    using processParam_openRows[OF st] by (simp add: openRows_append)
  show ?case
  proof (cases r)
    case (Inl e)
    then show ?thesis using Cons.prems st ev by auto
  next
    case (Inr r1)
    then have "processLoop L D h outs ps r1 s1 (tr @ evs) = (res, s', tr')"
      using Cons.prems st by simp
    from Cons.IH[OF this] ev show ?thesis by simp
  qed
qed

lemma CallProcedure_openRows: "openRows (snd (snd (CallProcedure L D s name params))) [] = []"
proof (cases "bindParams L params [] Map.empty 0")
  case (Inl e)
  then show ?thesis by (simp add: CallProcedure_def)
next
  case (Inr r)
  obtain args outs where r: "r = (args, outs)" by (cases r)
  obtain x s0 where x: "ExecContext D s (buildQuery name params) args = (x, s0)"
    by (cases "ExecContext D s (buildQuery name params) args")
  show ?thesis
  proof (cases x)
    case (Inl e)
    then show ?thesis using Inr r x by (simp add: CallProcedure_def)
  next
    case h: (Inr h)
    obtain res s' tr where l: "processLoop L D h outs params Map.empty s0
        [Exec (buildQuery name params) args] = (res, s', tr)"
      by (cases "processLoop L D h outs params Map.empty s0 [Exec (buildQuery name params) args]") auto
    from processLoop_openRows[OF l, of "[]"] have "openRows tr [] = []" by simp
    then show ?thesis using Inr r x h l
      by (simp add: CallProcedure_def processOutputParameters_def)
  qed
qed

subsection \<open>Errors of result processing\<close>

lemma processParam_Inl:
  assumes "processParam L D h outs p result s = (Inl e, s', evs)"
  shows "\<exists>a. outs (Name p) = Some (PRefCursor a) \<and>
           ((\<exists>e'. fst (WrapRefCursor D s (refCursors h a)) = Inl e' \<and>
                  e = ''failed to wrap REF CURSOR for parameter '' @ Name p @ '': '' @ e') \<or>
            (\<exists>rows e'. fst (WrapRefCursor D s (refCursors h a)) = Inr (Some rows) \<and>
                  fst (processRowsResult L rows) = Inl e' \<and>
                  e = ''failed to process REF CURSOR for parameter '' @ Name p @ '': '' @ e'))"
proof (cases "ToUpper L (Direction p) \<noteq> ''IN'' \<and> isRefCursorType L p \<and>
              (\<exists>a. outs (Name p) = Some (PRefCursor a))")
  case False
  then have False using assms
    by (auto simp: processParam_def split: if_splits option.splits dest.splits)
  then show ?thesis ..
next
  case True
  then obtain a where a: "outs (Name p) = Some (PRefCursor a)" by blast
  obtain w s1 where w: "WrapRefCursor D s (refCursors h a) = (w, s1)"
    by (cases "WrapRefCursor D s (refCursors h a)")
  show ?thesis
  proof (cases w)
    case (Inl e')
    then show ?thesis using assms True a w by (auto simp: processParam_def)
  next
    case (Inr ro)
    show ?thesis
    proof (cases ro)
      case None
      then show ?thesis using assms True a w Inr by (auto simp: processParam_def)
    next
      case (Some rows)
      obtain r evs' where r: "processRowsResult L rows = (r, evs')"
        by (cases "processRowsResult L rows")
      show ?thesis using assms True a w Inr Some r
        by (cases r) (auto simp: processParam_def)
    qed
  qed
qed

lemma processRowsResult_Inl:
  assumes "fst (processRowsResult L rows) = Inl e"
  shows "\<exists>x. e = ''failed to get columns: '' @ x \<or> e = ''scan failed: '' @ x \<or>
             e = ''rows iteration error: '' @ x"
proof -
  have sc: "scanRows L cols scs acc = Inl e' \<Longrightarrow> \<exists>x. e' = ''scan failed: '' @ x" for cols scs acc e'
    by (induction scs arbitrary: acc) (auto split: sum.splits)
  show ?thesis using assms
    by (auto simp: processRowsResult_def split: sum.splits option.splits dest: sc)
qed

lemma processParam_no_Exec:
  assumes "processParam L D h outs p result s = (res, s', evs)"
  shows "filter isExec evs = []"
  using processParam_events[OF assms] by auto

lemma processLoop_Exec:
  "processLoop L D h outs ps result s tr = (res, s', tr') \<Longrightarrow> filter isExec tr' = filter isExec tr"
proof (induction ps arbitrary: result s tr)
  case Nil
  then show ?case by simp
next
  case (Cons p ps)
  obtain r s1 evs where st: "processParam L D h outs p result s = (r, s1, evs)"
    by (cases "processParam L D h outs p result s") auto
  have ev: "filter isExec (tr @ evs) = filter isExec tr"
    using processParam_no_Exec[OF st] by simp
  show ?case
  proof (cases r)
    case (Inl e)
    then show ?thesis using Cons.prems st ev by auto
  next
    case (Inr r1)
    then have "processLoop L D h outs ps r1 s1 (tr @ evs) = (res, s', tr')"
      using Cons.prems st by simp
    from Cons.IH[OF this] ev show ?thesis by simp
  qed
qed

lemma CallProcedure_single_Exec:
  assumes "bindParams L params [] Map.empty 0 = Inr (args, outs)"
  shows "filter isExec (snd (snd (CallProcedure L D s name params))) =
           [Exec (buildQuery name params) args]"
proof -
  obtain x s0 where x: "ExecContext D s (buildQuery name params) args = (x, s0)"
    by (cases "ExecContext D s (buildQuery name params) args")
  show ?thesis
  proof (cases x)
    case (Inl e)
    then show ?thesis using assms x by (simp add: CallProcedure_def)
  next
    case h: (Inr h)
    obtain res s' tr where l: "processLoop L D h outs params Map.empty s0
        [Exec (buildQuery name params) args] = (res, s', tr)"
      by (cases "processLoop L D h outs params Map.empty s0 [Exec (buildQuery name params) args]") auto
    from processLoop_Exec[OF l] have "filter isExec tr = [Exec (buildQuery name params) args]" by simp
    then show ?thesis using assms x h l
      by (simp add: CallProcedure_def processOutputParameters_def)
  qed
qed

lemma processParam_Inl_name:
  assumes "processParam L D h outs p result s = (Inl e, s', evs)"
  shows "sublist (Name p) e"
  using processParam_Inl[OF assms]
  by (elim disjE exE conjE) (erule ssubst, rule sublist_appendI)+

lemma processParam_Inl_kinds:
  assumes "processParam L D h outs p result s = (Inl e, s', evs)"
  shows "\<exists>a. outs (Name p) = Some (PRefCursor a) \<and>
           ((\<exists>e'. fst (WrapRefCursor D s (refCursors h a)) = Inl e' \<and>
                  e = ''failed to wrap REF CURSOR for parameter '' @ Name p @ '': '' @ e') \<or>
            (\<exists>rows e'. fst (WrapRefCursor D s (refCursors h a)) = Inr (Some rows) \<and>
                  fst (processRowsResult L rows) = Inl e' \<and>
                  (\<exists>x. e' = ''failed to get columns: '' @ x \<or> e' = ''scan failed: '' @ x \<or>
                       e' = ''rows iteration error: '' @ x) \<and>
                  e = ''failed to process REF CURSOR for parameter '' @ Name p @ '': '' @ e'))"
proof -
  from processParam_Inl[OF assms] obtain a where
    a: "outs (Name p) = Some (PRefCursor a)"
    and d: "(\<exists>e'. fst (WrapRefCursor D s (refCursors h a)) = Inl e' \<and>
                  e = ''failed to wrap REF CURSOR for parameter '' @ Name p @ '': '' @ e') \<or>
            (\<exists>rows e'. fst (WrapRefCursor D s (refCursors h a)) = Inr (Some rows) \<and>
                  fst (processRowsResult L rows) = Inl e' \<and>
                  e = ''failed to process REF CURSOR for parameter '' @ Name p @ '': '' @ e')"
    by blast
  from d show ?thesis
  proof
    assume "\<exists>e'. fst (WrapRefCursor D s (refCursors h a)) = Inl e' \<and>
                  e = ''failed to wrap REF CURSOR for parameter '' @ Name p @ '': '' @ e'"
    with a show ?thesis by blast
  next
    assume "\<exists>rows e'. fst (WrapRefCursor D s (refCursors h a)) = Inr (Some rows) \<and>
                  fst (processRowsResult L rows) = Inl e' \<and>
                  e = ''failed to process REF CURSOR for parameter '' @ Name p @ '': '' @ e'"
    then obtain rows e' where r: "fst (WrapRefCursor D s (refCursors h a)) = Inr (Some rows)"
      "fst (processRowsResult L rows) = Inl e'"
      "e = ''failed to process REF CURSOR for parameter '' @ Name p @ '': '' @ e'" by blast
    from processRowsResult_Inl[OF r(2)] r a show ?thesis by blast
  qed
qed

lemma processLoop_Inl:
  "processLoop L D h outs ps result s tr = (Inl e, s', tr') \<Longrightarrow>
   \<exists>ps1 p ps2 r1 s1 tr1 evs. ps = ps1 @ p # ps2 \<and>
      processLoop L D h outs ps1 result s tr = (Inr r1, s1, tr1) \<and>
      processParam L D h outs p r1 s1 = (Inl e, s', evs)"
proof (induction ps arbitrary: result s tr)
  case Nil
  then show ?case by simp
next
  case (Cons x xs)
  obtain r s1 evs where st: "processParam L D h outs x result s = (r, s1, evs)"
    by (cases "processParam L D h outs x result s") auto
  show ?case
  proof (cases r)
    case (Inl e')
    then have "e' = e" "s1 = s'" using Cons.prems st by simp_all
    then have "x # xs = [] @ x # xs \<and>
        processLoop L D h outs [] result s tr = (Inr result, s, tr) \<and>
        processParam L D h outs x result s = (Inl e, s', evs)"
      using st Inl by simp
    then show ?thesis by blast
  next
    case (Inr r1)
    then have rest: "processLoop L D h outs xs r1 s1 (tr @ evs) = (Inl e, s', tr')"
      using Cons.prems st by simp
    from Cons.IH[OF this] obtain ps1 p ps2 r2 s2 tr2 evs2 where
      1: "xs = ps1 @ p # ps2"
      and 2: "processLoop L D h outs ps1 r1 s1 (tr @ evs) = (Inr r2, s2, tr2)"
      and 3: "processParam L D h outs p r2 s2 = (Inl e, s', evs2)" by blast
    have "x # xs = (x # ps1) @ p # ps2 \<and>
        processLoop L D h outs (x # ps1) result s tr = (Inr r2, s2, tr2) \<and>
        processParam L D h outs p r2 s2 = (Inl e, s', evs2)"
      using 1 2 3 st Inr by simp
    then show ?thesis by blast
  qed
qed

lemma CallProcedure_after_exec:
  "bindParams L params [] Map.empty 0 = Inr (args, outs) \<Longrightarrow>
   ExecContext D s (buildQuery name params) args = (Inr h, s0) \<Longrightarrow>
   CallProcedure L D s name params =
     processLoop L D h outs params Map.empty s0 [Exec (buildQuery name params) args]"
  by (simp add: CallProcedure_def processOutputParameters_def)


subsection \<open>Failures that reach the caller\<close>

lemma processLoop_append:
  "processLoop L D h outs (ps1 @ ps2) result s tr =
     (case processLoop L D h outs ps1 result s tr of
        (Inl e, s', tr') \<Rightarrow> (Inl e, s', tr')
      | (Inr r1, s1, tr1) \<Rightarrow> processLoop L D h outs ps2 r1 s1 tr1)"
proof (induction ps1 arbitrary: result s tr)
  case Nil
  then show ?case by simp
next
  case (Cons p ps)
  obtain r s1 evs where st: "processParam L D h outs p result s = (r, s1, evs)"
    by (cases "processParam L D h outs p result s") auto
  show ?case
  proof (cases r)
    case (Inl e)
    then show ?thesis using st by simp
  next
    case (Inr r1)
    then show ?thesis using st Cons.IH by simp
  qed
qed

lemma processLoop_fails_at:
  assumes "processLoop L D h outs ps1 result s tr = (Inr r1, s1, tr1)"
    and "processParam L D h outs p r1 s1 = (Inl e, s2, evs)"
  shows "processLoop L D h outs (ps1 @ p # ps2) result s tr = (Inl e, s2, tr1 @ evs)"
  using assms by (simp add: processLoop_append)

lemma processParam_wrap_fails:
  assumes "ToUpper L (Direction p) \<noteq> ''IN''" and "isRefCursorType L p"
    and "outs (Name p) = Some (PRefCursor a)"
    and "WrapRefCursor D s (refCursors h a) = (Inl e', s')"
  shows "processParam L D h outs p result s =
           (Inl (''failed to wrap REF CURSOR for parameter '' @ Name p @ '': '' @ e'), s',
            [Wrap (refCursors h a)])"
  using assms by (simp add: processParam_def)

lemma processParam_rows_fail:
  assumes "ToUpper L (Direction p) \<noteq> ''IN''" and "isRefCursorType L p"
    and "outs (Name p) = Some (PRefCursor a)"
    and "WrapRefCursor D s (refCursors h a) = (Inr (Some rows), s')"
    and "fst (processRowsResult L rows) = Inl e'"
  shows "processParam L D h outs p result s =
           (Inl (''failed to process REF CURSOR for parameter '' @ Name p @ '': '' @ e'), s',
            [Wrap (refCursors h a), Acquired (rowsId rows), Closed (rowsId rows)])"
proof -
  obtain r evs where r: "processRowsResult L rows = (r, evs)"
    by (cases "processRowsResult L rows")
  then have "r = Inl e'" "evs = [Closed (rowsId rows)]"
    using assms(5) processRowsResult_closes[of L rows] by simp_all
  then show ?thesis using assms(1-4) r by (simp add: processParam_def)
qed

lemma scanRows_scan_fails:
  "scanRows L cols (map Inr vals @ Inl x # rest) acc = Inl (''scan failed: '' @ x)"
  by (induction vals arbitrary: acc) simp_all

lemma processRowsResult_columns_fail:
  "Columns rows = Inl x \<Longrightarrow> fst (processRowsResult L rows) = Inl (''failed to get columns: '' @ x)"
  by (simp add: processRowsResult_def)

lemma processRowsResult_scan_fails:
  "Columns rows = Inr cols \<Longrightarrow> scans rows = map Inr vals @ Inl x # rest \<Longrightarrow>
   fst (processRowsResult L rows) = Inl (''scan failed: '' @ x)"
  by (simp add: processRowsResult_def scanRows_scan_fails)

lemma processRowsResult_iteration_fails:
  "Columns rows = Inr cols \<Longrightarrow> scans rows = map Inr vals \<Longrightarrow> Err rows = Some x \<Longrightarrow>
   fst (processRowsResult L rows) = Inl (''rows iteration error: '' @ x)"
  by (simp add: processRowsResult_def scanRows_map_Inr)

lemma bound_cursor_destination:
  assumes "bindParams L (ps1 @ p # ps2) [] Map.empty 0 = Inr (args, outs)"
    and "ToUpper L (Direction p) \<noteq> ''IN''" and "isRefCursorType L p"
    and "\<forall>r\<in>set ps2. ToUpper L (Direction r) \<noteq> ''IN'' \<longrightarrow> Name r \<noteq> Name p"
  shows "\<exists>a. outs (Name p) = Some (PRefCursor a)"
  using bindParams_outs_last[OF assms(1) refl assms(2) assms(4)] assms(3) by auto

subsection \<open>Validation\<close>

lemma validateParams_None_iff:
  "validateParams L ps i = None \<longleftrightarrow> (\<forall>p\<in>set ps. allBlank L p \<or> noneBlank L p)"
  by (induction ps arbitrary: i) (auto simp: allBlank_def noneBlank_def blank_def)

lemma validateParams_Some:
  "validateParams L ps i = Some e \<Longrightarrow>
   \<exists>k<length ps. \<not> allBlank L (ps ! k) \<and> \<not> noneBlank L (ps ! k) \<and>
      (\<forall>j<k. allBlank L (ps ! j) \<or> noneBlank L (ps ! j)) \<and>
      e = ''param['' @ Sprintf_d L (i + k) @ ''] '' @
          (if blank L (Name (ps ! k)) then ''name''
           else if blank L (Type (ps ! k)) then ''type'' else ''direction'') @ '' is required''"
proof (induction ps arbitrary: i)
  case Nil
  then show ?case by simp
next
  case (Cons p ps)
  show ?case
  proof (cases "allBlank L p \<or> noneBlank L p")
    case True
    then have "validateParams L ps (Suc i) = Some e"
      using Cons.prems by (auto simp: allBlank_def noneBlank_def blank_def)
    from Cons.IH[OF this] obtain k where k: "k < length ps"
      "\<not> allBlank L (ps ! k)" "\<not> noneBlank L (ps ! k)"
      "\<forall>j<k. allBlank L (ps ! j) \<or> noneBlank L (ps ! j)"
      "e = ''param['' @ Sprintf_d L (Suc i + k) @ ''] '' @
          (if blank L (Name (ps ! k)) then ''name''
           else if blank L (Type (ps ! k)) then ''type'' else ''direction'') @ '' is required''"
      by blast
    have "\<forall>j<Suc k. allBlank L ((p # ps) ! j) \<or> noneBlank L ((p # ps) ! j)"
      using True k(4) by (auto simp: less_Suc_eq_0_disj)
    then show ?thesis using k by (intro exI[of _ "Suc k"]) simp
  next
    case False
    then have "e = ''param['' @ Sprintf_d L i @ ''] '' @
          (if blank L (Name p) then ''name''
           else if blank L (Type p) then ''type'' else ''direction'') @ '' is required''"
      using Cons.prems by (auto simp: allBlank_def noneBlank_def blank_def split: if_splits)
    then show ?thesis using False by (intro exI[of _ 0]) simp
  qed
qed


subsection \<open>Catalog rows\<close>

lemma scanInfoRows_map_Inr: "scanInfoRows (map Inr cs) acc = Inr (acc @ map infoRow cs)"
  by (induction cs arbitrary: acc) auto

lemma scanInfoRows_Inr:
  "scanInfoRows scs acc = Inr out \<Longrightarrow> \<exists>cs. scs = map Inr cs \<and> out = acc @ map infoRow cs"
proof (induction scs arbitrary: acc)
  case Nil
  then show ?case by simp
next
  case (Cons sc scs)
  then obtain c where sc: "sc = Inr c"
    and rest: "scanInfoRows scs (acc @ [infoRow c]) = Inr out"
    by (auto split: sum.splits)
  from Cons.IH[OF rest] obtain cs where
    "scs = map Inr cs" "out = (acc @ [infoRow c]) @ map infoRow cs" by blast
  then have "sc # scs = map Inr (c # cs) \<and> out = acc @ map infoRow (c # cs)"
    using sc by simp
  then show ?case by (rule exI[of _ "c # cs"])
qed

lemma infoRow_values:
  "infoRow c =
     [''argument_name'' \<mapsto> VString (case ARGUMENT_NAME c of None \<Rightarrow> [] | Some x \<Rightarrow> x),
      ''data_type'' \<mapsto> VString (case DATA_TYPE c of None \<Rightarrow> [] | Some x \<Rightarrow> x),
      ''in_out'' \<mapsto> VString (case IN_OUT c of None \<Rightarrow> [] | Some x \<Rightarrow> x),
      ''position'' \<mapsto> VInt64 (case POSITION c of None \<Rightarrow> 0 | Some x \<Rightarrow> x),
      ''default_value'' \<mapsto> VString (case DEFAULT_VALUE c of None \<Rightarrow> [] | Some x \<Rightarrow> x)]"
  by (simp add: infoRow_def scanNullString_def scanNullInt64_def split: option.splits)

lemma infoRow_no_nil: "infoRow c k \<noteq> Some VNil"
  by (simp add: infoRow_values)

lemma infoRow_dom:
  "dom (infoRow c) = {''argument_name'', ''data_type'', ''in_out'', ''position'', ''default_value''}"
  unfolding infoRow_values by (simp only: dom_fun_upd dom_empty option.simps) auto

lemma processRowsResult_success:
  "Columns rows = Inr cols \<Longrightarrow> scans rows = map Inr vals \<Longrightarrow> Err rows = None \<Longrightarrow>
   processRowsResult L rows = (Inr (map (fillRowMap L cols) vals), [Closed (rowsId rows)])"
  by (simp add: processRowsResult_def scanRows_map_Inr)

subsection \<open>The \<open>BOOLEAN\<close> conversion\<close>

lemma convertInputValue_boolean:
  assumes "ToUpper L (Type p) = ''BOOLEAN''"
  shows "convertInputValue L p =
     (case Value p of
        VBool b \<Rightarrow> VBool b
      | VString x \<Rightarrow> VBool (ToLower L x = ''true'' \<or> x = ''1'')
      | VInt n \<Rightarrow> VBool (n \<noteq> 0)
      | VInt64 n \<Rightarrow> VBool True
      | VFloat64 x \<Rightarrow> VBool True
      | _ \<Rightarrow> VBool False)"
  using assms by (simp add: convertInputValue_def typeLists ne_zero_any_def split: gval.splits)

subsection \<open>An unsupported direction\<close>

lemma unsupported_direction_fails:
  assumes "p \<in> set params" and "\<not> supportedDirection L (Direction p)"
  shows "(\<exists>e. CallProcedure L D s name params = (Inl e, s, []) \<and> configurationError e) \<and>
         (\<forall>ps1 ps2. params = ps1 @ p # ps2 \<and> (\<forall>q\<in>set ps1. bindable L q) \<longrightarrow>
            CallProcedure L D s name params =
              (Inl (''unsupported parameter direction: '' @ Direction p), s, []))"
proof -
  have "\<not> bindable L p" using assms(2) by (simp add: bindable_def)
  from bindParams_unbindable_fails[OF assms(1) this]
  obtain e where e: "bindParams L params [] Map.empty 0 = Inl e" by blast
  have 1: "\<exists>e. CallProcedure L D s name params = (Inl e, s, []) \<and> configurationError e"
    using CallProcedure_bind_failure[OF e, of D s name] bindParams_Inl_configurationError[OF e] by blast
  have 2: "CallProcedure L D s name params =
              (Inl (''unsupported parameter direction: '' @ Direction p), s, [])"
    if "params = ps1 @ p # ps2" "\<forall>q\<in>set ps1. bindable L q" for ps1 ps2
  proof -
    have "bindParams L (ps1 @ p # ps2) [] Map.empty 0 =
            Inl (''unsupported parameter direction: '' @ Direction p)"
      using that(2) bindParam_unsupported[OF assms(2)] by (rule bindParams_first_failure)
    then show ?thesis using that(1) by (simp add: CallProcedure_bind_failure)
  qed
  show ?thesis using 1 2 by blast
qed

subsection \<open>Evaluation on the example library and database\<close>

lemmas callEvals = CallProcedure_def processOutputParameters_def bindParam_def processParam_def
  buildQuery_def convertInputValue_def createOutputParameter_def isRefCursorType_def readDest_def
  supportedDirection_def bindable_def sameButCase_def
  goLib_simps asciiUpper_def asciiLower_def typeLists fixedDB_def failingDB_def zeroHeap_def
  employeeHeap_def param_def

lemmas rowEvals = processRowsResult_def fillRowMap_def convertColumn_def exampleRows_def
  brokenRows_def goLib_simps

lemmas validateEvals = Validate_def blank_def allBlank_def noneBlank_def goLib_simps trimSpace_def
  asciiSpace_def param_def

section \<open>The result mapping\<close>

text \<open>
  Claim C1, as amended. When \<open>CallProcedure\<close> returns without error, the keys of the
  result mapping are exactly the names of the parameters whose direction is not IN
  (compared in upper case): every such parameter has an entry (a scalar, the rows of a
  cursor, or the explicit null \<open>Scalar VNil\<close>), and every key is the name of such a
  parameter. The name of an IN parameter is therefore a key only when a parameter that is
  not IN bears the same name.
\<close>

theorem CallProcedure_result_keys:
  assumes "CallProcedure L D s name params = (Inr result, s', tr)"
  shows "dom result = Name ` {p \<in> set params. ToUpper L (Direction p) \<noteq> ''IN''}"
proof -
  from CallProcedure_Inr[OF assms] obtain args outs h s0 where
    b: "bindParams L params [] Map.empty 0 = Inr (args, outs)"
    and l: "processLoop L D h outs params Map.empty s0 [Exec (buildQuery name params) args]
             = (Inr result, s', tr)" by blast
  have "dom result \<subseteq> Name ` {p \<in> set params. ToUpper L (Direction p) \<noteq> ''IN''}"
    using processLoop_dom_upper[OF l] by simp
  moreover have "Name q \<in> dom result"
    if q: "q \<in> set params" "ToUpper L (Direction q) \<noteq> ''IN''" for q
  proof -
    from split_last_nonIn[OF q] obtain ps1 q' ps2 where
      sp: "params = ps1 @ q' # ps2" and n: "Name q' = Name q"
      and d: "ToUpper L (Direction q') \<noteq> ''IN''"
      and lst: "\<forall>r\<in>set ps2. ToUpper L (Direction r) \<noteq> ''IN'' \<longrightarrow> Name r \<noteq> Name q'"
      by metis
    from bindParams_outs_last[OF b sp d lst] obtain dd where
      "outs (Name q') = Some dd" "isRefCursorType L q' \<longleftrightarrow> (\<exists>b. dd = PRefCursor b)" by blast
    from processLoop_dom_last[OF l sp d this] show ?thesis using n by simp
  qed
  ultimately show ?thesis by blast
qed

text \<open>
  The scenario \<open>add_employee\<close>: an IN parameter \<open>emp_name\<close> and a numeric OUT
  parameter \<open>emp_id\<close>, on a database that writes 1042 into the destination.
\<close>

theorem CallProcedure_result_keys_witness:
  "CallProcedure goLib (fixedDB employeeHeap (\<lambda>k. Inr None) []) () ''add_employee''
     [param ''emp_name'' ''VARCHAR2'' (VString ''Alice'') ''IN'',
      param ''emp_id'' ''NUMBER'' VNil ''OUT'']
   = (Inr [''emp_id'' \<mapsto> Scalar (VFloat64 1042)], (),
      [Exec ''BEGIN add_employee(:emp_name, :emp_id); END;''
         [(''emp_name'', AVal (VString ''Alice'')),
          (''emp_id'', AOut \<lparr>Dest = PNullFloat64 1, Size = 0\<rparr>)]]) \<and>
   dom [''emp_id'' \<mapsto> Scalar (VFloat64 (1042 :: real)) :: (real, string) rval] =
     Name ` {p \<in> set [param ''emp_name'' ''VARCHAR2'' (VString ''Alice'') ''IN'',
                       param ''emp_id'' ''NUMBER'' VNil ''OUT''].
             ToUpper goLib (Direction p) \<noteq> ''IN''}"
proof -
  have call: "CallProcedure goLib (fixedDB employeeHeap (\<lambda>k. Inr None) []) () ''add_employee''
     [param ''emp_name'' ''VARCHAR2'' (VString ''Alice'') ''IN'',
      param ''emp_id'' ''NUMBER'' VNil ''OUT'']
   = (Inr [''emp_id'' \<mapsto> Scalar (VFloat64 1042)], (),
      [Exec ''BEGIN add_employee(:emp_name, :emp_id); END;''
         [(''emp_name'', AVal (VString ''Alice'')),
          (''emp_id'', AOut \<lparr>Dest = PNullFloat64 1, Size = 0\<rparr>)]])"
    by (simp add: callEvals showValue_def)
  show ?thesis by (rule conjI[OF call CallProcedure_result_keys[OF call]])
qed

text \<open>
  As first stated, the claim also excludes every key that is the name of an IN parameter.
  Two parameters may bear one name: a request with an IN and an OUT parameter both
  named \<open>x\<close> passes \<open>Validate\<close>, the call succeeds, and the result has the key
  \<open>x\<close>, the name of an IN parameter.
\<close>

theorem CallProcedure_in_name_counterexample:
  "Validate goLib \<lparr>ReqName = ''bump'',
      Params = [param ''x'' ''NUMBER'' (VFloat64 1) ''IN'', param ''x'' ''NUMBER'' VNil ''OUT'']\<rparr> = None \<and>
   fst (CallProcedure goLib (fixedDB employeeHeap (\<lambda>k. Inr None) []) () ''bump''
          [param ''x'' ''NUMBER'' (VFloat64 1) ''IN'', param ''x'' ''NUMBER'' VNil ''OUT''])
     = Inr [''x'' \<mapsto> Scalar (VFloat64 1042)] \<and>
   ToUpper goLib (Direction (param ''x'' ''NUMBER'' (VFloat64 1) ''IN'')) = ''IN'' \<and>
   Name (param ''x'' ''NUMBER'' (VFloat64 1) ''IN'') \<in> dom [''x'' \<mapsto> Scalar (VFloat64 (1042 :: real)) :: (real, string) rval]"
proof -
  have "Validate goLib \<lparr>ReqName = ''bump'',
      Params = [param ''x'' ''NUMBER'' (VFloat64 1) ''IN'', param ''x'' ''NUMBER'' VNil ''OUT'']\<rparr> = None"
    by (simp add: validateEvals)
  then show ?thesis by (simp add: callEvals)
qed

section \<open>A REF CURSOR declared INOUT\<close>

text \<open>
  Claim C2, as amended. If some parameter has one of the types the code treats as a
  cursor (\<open>REF CURSOR\<close> or \<open>SYS_REFCURSOR\<close> in upper case) and direction INOUT,
  \<open>CallProcedure\<close> returns a configuration error, leaves the database state as it was
  and makes no call on the database; when every parameter before it can be bound, the
  error is the message \<open>REF CURSOR cannot be used as INOUT parameter\<close>, whatever
  follows it.
\<close>

theorem refcursor_inout_rejected:
  assumes "p \<in> set params" and "isRefCursorType L p" and "ToUpper L (Direction p) = ''INOUT''"
  shows "(\<exists>e. CallProcedure L D s name params = (Inl e, s, []) \<and> configurationError e) \<and>
         (\<forall>ps1 ps2. params = ps1 @ p # ps2 \<and> (\<forall>q\<in>set ps1. bindable L q) \<longrightarrow>
            CallProcedure L D s name params =
              (Inl ''REF CURSOR cannot be used as INOUT parameter'', s, []))"
proof -
  have "\<not> bindable L p" using assms(2,3) by (simp add: bindable_def)
  from bindParams_unbindable_fails[OF assms(1) this]
  obtain e where e: "bindParams L params [] Map.empty 0 = Inl e" by blast
  have 1: "\<exists>e. CallProcedure L D s name params = (Inl e, s, []) \<and> configurationError e"
    using CallProcedure_bind_failure[OF e, of D s name] bindParams_Inl_configurationError[OF e] by blast
  have 2: "CallProcedure L D s name params =
              (Inl ''REF CURSOR cannot be used as INOUT parameter'', s, [])"
    if "params = ps1 @ p # ps2" "\<forall>q\<in>set ps1. bindable L q" for ps1 ps2
  proof -
    have "bindParams L (ps1 @ p # ps2) [] Map.empty 0 =
            Inl ''REF CURSOR cannot be used as INOUT parameter''"
      using that(2) bindParam_cursor_inout[OF assms(3,2)] by (rule bindParams_first_failure)
    then show ?thesis using that(1) by (simp add: CallProcedure_bind_failure)
  qed
  show ?thesis using 1 2 by blast
qed

text \<open>
  A cursor declared \<open>InOut\<close> after a bindable IN parameter.
\<close>

theorem refcursor_inout_rejected_witness:
  "isRefCursorType goLib (param ''cur'' ''ref cursor'' VNil ''InOut'') \<and>
   ToUpper goLib (Direction (param ''cur'' ''ref cursor'' VNil ''InOut'')) = ''INOUT'' \<and>
   CallProcedure goLib (fixedDB zeroHeap (\<lambda>k. Inr None) []) () ''list_reports''
     [param ''n'' ''NUMBER'' (VFloat64 3) ''IN'', param ''cur'' ''ref cursor'' VNil ''InOut'']
   = (Inl ''REF CURSOR cannot be used as INOUT parameter'', (), [])"
proof -
  let ?p = "param ''cur'' ''ref cursor'' VNil ''InOut''"
  let ?n = "param ''n'' ''NUMBER'' (VFloat64 3) ''IN''"
  have c: "isRefCursorType goLib ?p" and d: "ToUpper goLib (Direction ?p) = ''INOUT''"
    by (simp_all add: isRefCursorType_def goLib_simps asciiUpper_def param_def)
  have m: "?p \<in> set [?n, ?p]" by simp
  have b: "[?n, ?p] = [?n] @ ?p # [] \<and> (\<forall>q\<in>set [?n]. bindable goLib q)"
    by (simp add: bindable_def supportedDirection_def goLib_simps asciiUpper_def param_def)
  from refcursor_inout_rejected[OF m c d, of "fixedDB zeroHeap (\<lambda>k. Inr None) []" "()" "''list_reports''"] b
  have "CallProcedure goLib (fixedDB zeroHeap (\<lambda>k. Inr None) []) () ''list_reports'' [?n, ?p]
          = (Inl ''REF CURSOR cannot be used as INOUT parameter'', (), [])"
    by blast
  then show ?thesis using c d by simp
qed

text \<open>
  As first stated, the claim covers every cursor type, and the data model spells the
  cursor type \<open>REF_CURSOR\<close>. That spelling is none of the types the code treats as a
  cursor: a request with a parameter of type \<open>REF_CURSOR\<close> and direction INOUT passes
  \<open>Validate\<close>, is bound with a destination of dynamic type, and the block is
  executed.
\<close>

theorem refcursor_inout_spelling_counterexample:
  "Validate goLib \<lparr>ReqName = ''list_reports'',
      Params = [param ''cur'' ''REF_CURSOR'' VNil ''INOUT'']\<rparr> = None \<and>
   ToUpper goLib (Direction (param ''cur'' ''REF_CURSOR'' VNil ''INOUT'')) = ''INOUT'' \<and>
   CallProcedure goLib (fixedDB zeroHeap (\<lambda>k. Inr None) []) () ''list_reports''
     [param ''cur'' ''REF_CURSOR'' VNil ''INOUT'']
   = (Inr [''cur'' \<mapsto> Scalar VNil], (),
      [Exec ''BEGIN list_reports(:cur); END;''
         [(''cur'', AInOut VNil \<lparr>Dest = PAny 0, Size = 0\<rparr>)]])"
proof -
  have "Validate goLib \<lparr>ReqName = ''list_reports'',
      Params = [param ''cur'' ''REF_CURSOR'' VNil ''INOUT'']\<rparr> = None"
    by (simp add: validateEvals)
  then show ?thesis by (simp add: callEvals)
qed

section \<open>Materialized cursor rows\<close>

text \<open>
  Claim C3. When \<open>processRowsResult\<close> returns rows, there is one row mapping per
  fetched row, in fetch order; the keys of each mapping are the column names; and under
  each column name (for a name that occurs several times, its last column) stands the
  scanned value, a byte sequence as the string of the same bytes, a time as its RFC 3339
  text, any other value unchanged.
\<close>

theorem processRowsResult_materializes:
  assumes "processRowsResult L rows = (Inr out, evs)"
  shows "\<exists>cols vals.
           Columns rows = Inr cols \<and> scans rows = map Inr vals \<and> length out = length vals \<and>
           (\<forall>j<length vals.
              dom (out ! j) = set cols \<and>
              (\<forall>i<length cols. (\<forall>k<length cols. i < k \<longrightarrow> cols ! k \<noteq> cols ! i) \<longrightarrow>
                 (out ! j) (cols ! i) =
                   Some (case (vals ! j) i of
                           VBytes b \<Rightarrow> VString b
                         | VTime t \<Rightarrow> VString (Format_RFC3339 L t)
                         | v \<Rightarrow> v)))"
proof -
  from processRowsResult_Inr[OF assms] obtain cols vals where
    c: "Columns rows = Inr cols" and s: "scans rows = map Inr vals"
    and o: "out = map (fillRowMap L cols) vals" by blast
  have "\<forall>j<length vals.
          dom (out ! j) = set cols \<and>
          (\<forall>i<length cols. (\<forall>k<length cols. i < k \<longrightarrow> cols ! k \<noteq> cols ! i) \<longrightarrow>
             (out ! j) (cols ! i) = Some (convertColumn L ((vals ! j) i)))"
    using o by (simp add: fillRowMap_dom fillRowMap_last)
  then have "\<forall>j<length vals.
          dom (out ! j) = set cols \<and>
          (\<forall>i<length cols. (\<forall>k<length cols. i < k \<longrightarrow> cols ! k \<noteq> cols ! i) \<longrightarrow>
             (out ! j) (cols ! i) =
                   Some (case (vals ! j) i of
                           VBytes b \<Rightarrow> VString b
                         | VTime t \<Rightarrow> VString (Format_RFC3339 L t)
                         | v \<Rightarrow> v))"
    by (simp add: convertColumn_def split: gval.splits)
  moreover have "length out = length vals" using o by simp
  ultimately show ?thesis using c s by blast
qed

text \<open>
  Two rows of three columns with an integer, a byte sequence, a time, a null and a string.
\<close>

theorem processRowsResult_materializes_witness:
  "processRowsResult goLib exampleRows =
     (Inr [[''ID'' \<mapsto> VInt64 1, ''NAME'' \<mapsto> VString ''Alice'',
            ''CREATED'' \<mapsto> VString ''2024-01-02T03:04:05Z''],
           [''ID'' \<mapsto> VInt64 2, ''NAME'' \<mapsto> VNil, ''CREATED'' \<mapsto> VString ''n/a'']],
      [Closed 7]) \<and>
   (\<exists>cols vals.
      Columns exampleRows = Inr cols \<and> scans exampleRows = map Inr vals \<and>
      length [[''ID'' \<mapsto> VInt64 1, ''NAME'' \<mapsto> VString ''Alice'',
               ''CREATED'' \<mapsto> VString ''2024-01-02T03:04:05Z''],
              [''ID'' \<mapsto> VInt64 2, ''NAME'' \<mapsto> VNil, ''CREATED'' \<mapsto> VString ''n/a'' :: (real, string) gval]]
        = length vals)"
proof -
  have r: "processRowsResult goLib exampleRows =
     (Inr [[''ID'' \<mapsto> VInt64 1, ''NAME'' \<mapsto> VString ''Alice'',
            ''CREATED'' \<mapsto> VString ''2024-01-02T03:04:05Z''],
           [''ID'' \<mapsto> VInt64 2, ''NAME'' \<mapsto> VNil, ''CREATED'' \<mapsto> VString ''n/a'']],
      [Closed 7])"
    by (simp add: rowEvals)
  from processRowsResult_materializes[OF r] have "\<exists>cols vals.
      Columns exampleRows = Inr cols \<and> scans exampleRows = map Inr vals \<and>
      length [[''ID'' \<mapsto> VInt64 1, ''NAME'' \<mapsto> VString ''Alice'',
               ''CREATED'' \<mapsto> VString ''2024-01-02T03:04:05Z''],
              [''ID'' \<mapsto> VInt64 2, ''NAME'' \<mapsto> VNil, ''CREATED'' \<mapsto> VString ''n/a'' :: (real, string) gval]]
        = length vals"
    by blast
  with r show ?thesis by (rule conjI)
qed

section \<open>An unsupported direction\<close>

text \<open>
  Claim C4, as amended. If the direction of some parameter is none of IN, OUT and INOUT
  in upper case (the empty string included), \<open>CallProcedure\<close> returns a configuration
  error, leaves the database state as it was and makes no call on the database; when
  every parameter before it can be bound, the error is \<open>unsupported parameter
  direction: \<close> followed by that exact direction string. Two parameter lists that
  differ only in the spelling of supported directions with the same upper case give the
  same outcome.
\<close>

theorem unsupported_direction_rejected:
  "(\<forall>p. p \<in> set params \<and> \<not> supportedDirection L (Direction p) \<longrightarrow>
      (\<exists>e. CallProcedure L D s name params = (Inl e, s, []) \<and> configurationError e) \<and>
      (\<forall>ps1 ps2. params = ps1 @ p # ps2 \<and> (\<forall>q\<in>set ps1. bindable L q) \<longrightarrow>
         CallProcedure L D s name params =
           (Inl (''unsupported parameter direction: '' @ Direction p), s, []))) \<and>
   (\<forall>params'. list_all2 (sameButCase L) params params' \<and>
        (\<forall>p\<in>set params. supportedDirection L (Direction p)) \<longrightarrow>
      CallProcedure L D s name params' = CallProcedure L D s name params)"
proof (intro conjI allI impI)
  fix p
  assume "p \<in> set params \<and> \<not> supportedDirection L (Direction p)"
  then have p: "p \<in> set params" "\<not> supportedDirection L (Direction p)" by simp_all
  from unsupported_direction_fails[OF p, of D s name]
  show "\<exists>e. CallProcedure L D s name params = (Inl e, s, []) \<and> configurationError e"
    by (rule conjunct1)
  fix ps1 ps2
  assume "params = ps1 @ p # ps2 \<and> (\<forall>q\<in>set ps1. bindable L q)"
  with unsupported_direction_fails[OF p, of D s name]
  show "CallProcedure L D s name params =
           (Inl (''unsupported parameter direction: '' @ Direction p), s, [])"
    by blast
next
  fix params'
  assume "list_all2 (sameButCase L) params params' \<and>
        (\<forall>p\<in>set params. supportedDirection L (Direction p))"
  then show "CallProcedure L D s name params' = CallProcedure L D s name params"
    by (simp add: sameButCase_CallProcedure)
qed

text \<open>
  The empty direction of the repository's own test, and the spellings \<open>In\<close> and
  \<open>in\<close>.
\<close>

theorem unsupported_direction_rejected_witness:
  "CallProcedure goLib failingDB () ''invalid_procedure'' [param ''param1'' ''IN'' (VString ''value1'') []]
     = (Inl ''unsupported parameter direction: '', (), []) \<and>
   CallProcedure goLib failingDB () ''f'' [param ''n'' ''NUMBER'' (VFloat64 3) ''In'']
     = CallProcedure goLib failingDB () ''f'' [param ''n'' ''NUMBER'' (VFloat64 3) ''in'']"
proof -
  let ?p = "param ''param1'' ''IN'' (VString ''value1'') []"
  note t = unsupported_direction_rejected[of "[?p]" goLib failingDB "()" "''invalid_procedure''"]
  have h: "?p \<in> set [?p] \<and> \<not> supportedDirection goLib (Direction ?p)"
    by (simp add: supportedDirection_def goLib_simps param_def)
  have g: "[?p] = [] @ ?p # [] \<and> (\<forall>q\<in>set []. bindable goLib q)" by simp
  from t h g have 1: "CallProcedure goLib failingDB () ''invalid_procedure'' [?p]
     = (Inl (''unsupported parameter direction: '' @ Direction ?p), (), [])" by blast
  let ?a = "param ''n'' ''NUMBER'' (VFloat64 3) ''in''"
  let ?b = "param ''n'' ''NUMBER'' (VFloat64 3) ''In''"
  note u = unsupported_direction_rejected[of "[?a]" goLib failingDB "()" "''f''"]
  have k: "list_all2 (sameButCase goLib) [?a] [?b] \<and>
        (\<forall>p\<in>set [?a]. supportedDirection goLib (Direction p))"
    by (simp add: sameButCase_def supportedDirection_def goLib_simps asciiUpper_def param_def)
  from u k have 2: "CallProcedure goLib failingDB () ''f'' [?b] = CallProcedure goLib failingDB () ''f'' [?a]"
    by blast
  show ?thesis using 1 2 by (simp add: param_def)
qed

text \<open>
  As first stated, the claim promises for every parameter with an unsupported direction
  an error naming that parameter's direction. The loop returns at the first parameter it
  cannot bind: with the directions \<open>x\<close> and \<open>y\<close> (a request that passes
  \<open>Validate\<close>) the error names \<open>x\<close>, and \<open>y\<close> does not occur in it.
\<close>

theorem unsupported_direction_counterexample:
  "Validate goLib \<lparr>ReqName = ''p'',
      Params = [param ''a'' ''NUMBER'' VNil ''x'', param ''b'' ''NUMBER'' VNil ''y'']\<rparr> = None \<and>
   CallProcedure goLib failingDB () ''p''
     [param ''a'' ''NUMBER'' VNil ''x'', param ''b'' ''NUMBER'' VNil ''y'']
     = (Inl ''unsupported parameter direction: x'', (), []) \<and>
   \<not> supportedDirection goLib (Direction (param ''b'' ''NUMBER'' VNil ''y'')) \<and>
   \<not> sublist (Direction (param ''b'' ''NUMBER'' VNil ''y'')) ''unsupported parameter direction: x''"
proof -
  have v: "Validate goLib \<lparr>ReqName = ''p'',
      Params = [param ''a'' ''NUMBER'' VNil ''x'', param ''b'' ''NUMBER'' VNil ''y'']\<rparr> = None"
    by (simp add: validateEvals)
  have "\<not> sublist ''y'' ''unsupported parameter direction: x''"
    by (simp add: sublist_Cons_right prefix_Cons)
  then show ?thesis using v by (simp add: callEvals)
qed

section \<open>Numeric strings\<close>

text \<open>
  Claim C5. For an IN parameter of a numeric type (\<open>NUMBER\<close>, \<open>INTEGER\<close>,
  \<open>INT\<close>, \<open>FLOAT\<close>, \<open>DOUBLE\<close> in upper case) whose value is a string,
  \<open>convertInputValue\<close> returns the parsed \<open>float64\<close> when \<open>strconv.ParseFloat\<close>
  succeeds and the original string otherwise, and binding the parameter succeeds: it
  appends the converted value under the parameter's name.
\<close>

theorem convertInputValue_numeric_string:
  assumes "ToUpper L (Type p) \<in> {''NUMBER'', ''INTEGER'', ''INT'', ''FLOAT'', ''DOUBLE''}"
    and "Value p = VString v"
    and "ToUpper L (Direction p) = ''IN''"
  shows "(\<forall>f. ParseFloat L v = Some f \<longrightarrow> convertInputValue L p = VFloat64 f) \<and>
         (ParseFloat L v = None \<longrightarrow> convertInputValue L p = VString v) \<and>
         bindParam L p args outputParams a =
           Inr (args @ [(Name p, AVal (convertInputValue L p))], outputParams)"
proof -
  have ty: "ToUpper L (Type p) \<in> set numericTypes"
    using assms(1) by (simp add: numericTypes_def)
  have conv: "convertInputValue L p =
      (case ParseFloat L v of Some f \<Rightarrow> VFloat64 f | None \<Rightarrow> VString v)"
    using ty assms(2) by (simp add: convertInputValue_def)
  have bind: "bindParam L p args outputParams a =
      Inr (args @ [(Name p, AVal (convertInputValue L p))], outputParams)"
    using assms(3) by (simp add: bindParam_def)
  show ?thesis using conv bind by simp
qed

text \<open>
  The scenario \<open>not-a-number\<close>, and a string that parses.
\<close>

theorem convertInputValue_numeric_string_witness:
  "convertInputValue goLib (param ''amount'' ''Number'' (VString ''not-a-number'') ''in'')
     = VString ''not-a-number'' \<and>
   convertInputValue goLib (param ''amount'' ''Number'' (VString ''42'') ''in'') = VFloat64 42 \<and>
   bindParam goLib (param ''amount'' ''Number'' (VString ''not-a-number'') ''in'') [] Map.empty 0
     = Inr ([(''amount'', AVal (VString ''not-a-number''))], Map.empty)"
proof -
  have up: "ToUpper goLib ''Number'' = ''NUMBER''" "ToUpper goLib ''in'' = ''IN''"
    by (simp_all add: goLib_simps asciiUpper_def)
  have p1: "ParseFloat goLib ''not-a-number'' = None"
    by (simp add: goLib_simps parseFloat_def digitValue_def)
  have p2: "ParseFloat goLib ''42'' = Some 42"
    by (simp add: goLib_simps parseFloat_def digitValue_def)
  note a = convertInputValue_numeric_string
    [of goLib "param ''amount'' ''Number'' (VString ''not-a-number'') ''in''" "''not-a-number''" "[]" Map.empty 0]
  note b = convertInputValue_numeric_string
    [of goLib "param ''amount'' ''Number'' (VString ''42'') ''in''" "''42''" "[]" Map.empty 0]
  show ?thesis using a b up p1 p2 by (simp add: param_def)
qed

section \<open>Boolean input\<close>

text \<open>
  Claim C6. The claim has a \<open>BOOLEAN\<close> parameter with a zero numeric value converted
  to false. The code returns true for the \<open>float64\<close> zero (the value a JSON \<open>0\<close>
  decodes to) and for the \<open>int64\<close> zero: the comparison \<open>v != 0\<close> is between
  interface values, and only an \<open>int\<close> zero equals the constant.
\<close>

theorem convertInputValue_boolean_float_zero:
  "convertInputValue goLib (param ''flag'' ''BOOLEAN'' (VFloat64 0) ''IN'') = VBool True"
  by (simp add: convertInputValue_def param_def goLib_simps asciiUpper_def typeLists ne_zero_any_def)

section \<open>The anonymous block\<close>

text \<open>
  Claim C7. The block is \<open>BEGIN name(...); END;\<close> with the placeholders
  \<open>:\<close>\<^emph>\<open>parameter name\<close>, one per parameter in input order, joined by a comma and a
  space; the bound arguments are named after the parameters in the same order, and once
  the parameters are bound the call executes this one block with these arguments and
  no other; with no parameters the block is \<open>BEGIN name(); END;\<close>, the argument list
  is empty, and a successful execution returns the empty result mapping.
\<close>

theorem anonymous_block:
  fixes L :: "('f, 't) Lib" and params :: "('f, 't) ProcedureParam list"
  shows
  "buildQuery name params =
     ''BEGIN '' @ name @ ''('' @ Join (map (\<lambda>p. '':'' @ Name p) params) '', '' @ ''); END;'' \<and>
   (\<forall>args outs. bindParams L params [] Map.empty 0 = Inr (args, outs) \<longrightarrow>
      map fst args = map Name params \<and>
      filter isExec (snd (snd (CallProcedure L D s name params))) =
        [Exec (buildQuery name params) args]) \<and>
   buildQuery name ([] :: ('f, 't) ProcedureParam list) = ''BEGIN '' @ name @ ''(); END;'' \<and>
   bindParams L [] [] Map.empty 0 = Inr ([], Map.empty) \<and>
   (\<forall>h s'. ExecContext D s (''BEGIN '' @ name @ ''(); END;'') [] = (Inr h, s') \<longrightarrow>
      CallProcedure L D s name [] =
        (Inr Map.empty, s', [Exec (''BEGIN '' @ name @ ''(); END;'') []]))"
proof -
  have q0: "buildQuery name ([] :: ('f, 't) ProcedureParam list) = ''BEGIN '' @ name @ ''(); END;''"
    by (simp add: buildQuery_def)
  have "CallProcedure L D s name [] =
        (Inr Map.empty, s', [Exec (''BEGIN '' @ name @ ''(); END;'') []])"
    if "ExecContext D s (''BEGIN '' @ name @ ''(); END;'') [] = (Inr h, s')" for h s'
    using that by (simp add: CallProcedure_def processOutputParameters_def buildQuery_def)
  moreover have "map fst args = map Name params \<and>
      filter isExec (snd (snd (CallProcedure L D s name params))) =
        [Exec (buildQuery name params) args]"
    if "bindParams L params [] Map.empty 0 = Inr (args, outs)" for args outs
    using bindParams_Inr_args[OF that] CallProcedure_single_Exec[OF that, of D s name] by simp
  ultimately show ?thesis using buildQuery_Join[of name params] q0
    by (simp add: bindParams.simps(1))
qed

text \<open>
  The block of the scenario \<open>add_employee\<close> and the call of \<open>no_op\<close>.
\<close>

theorem anonymous_block_witness:
  "buildQuery ''add_employee''
     [param ''emp_name'' ''VARCHAR2'' (VString ''Alice'') ''IN'', param ''emp_id'' ''NUMBER'' VNil ''OUT'']
     = ''BEGIN add_employee(:emp_name, :emp_id); END;'' \<and>
   CallProcedure goLib (fixedDB zeroHeap (\<lambda>k. Inr None) []) () ''no_op'' []
     = (Inr Map.empty, (), [Exec ''BEGIN no_op(); END;'' []])"
proof -
  note t = anonymous_block[of "''add_employee''"
      "[param ''emp_name'' ''VARCHAR2'' (VString ''Alice'') ''IN'', param ''emp_id'' ''NUMBER'' VNil ''OUT'']"
      goLib "fixedDB zeroHeap (\<lambda>k. Inr None) []" "()"]
  then have 1: "buildQuery ''add_employee''
     [param ''emp_name'' ''VARCHAR2'' (VString ''Alice'') ''IN'', param ''emp_id'' ''NUMBER'' VNil ''OUT'']
     = ''BEGIN add_employee(:emp_name, :emp_id); END;''"
    by (simp add: param_def)
  note u = anonymous_block[of "''no_op''" "[]" goLib "fixedDB zeroHeap (\<lambda>k. Inr None) []" "()"]
  have x: "ExecContext (fixedDB zeroHeap (\<lambda>k. Inr None) []) () (''BEGIN '' @ ''no_op'' @ ''(); END;'') []
         = (Inr zeroHeap, ())"
    by (simp add: fixedDB_def)
  from u x have 2: "CallProcedure goLib (fixedDB zeroHeap (\<lambda>k. Inr None) []) () ''no_op'' []
     = (Inr Map.empty, (), [Exec (''BEGIN '' @ ''no_op'' @ ''(); END;'') []])"
    by blast
  show ?thesis using 1 2 by simp
qed

section \<open>Failures of result processing\<close>

text \<open>
  Claim C8. After every call of \<open>CallProcedure\<close>, whatever it returns, each row set
  handed to the code has been closed. When binding and execution succeeded and the call
  returns an error, the error arose at one parameter \<open>p\<close> with a cursor destination,
  after the parameters before it were processed without error: either wrapping its cursor
  failed, or \<open>processRowsResult\<close> failed on its rows (reading the columns, scanning a
  row, or the iteration), and the message contains the name of \<open>p\<close>. Conversely, when
  binding and execution succeeded, the parameters before a cursor parameter \<open>p\<close> that
  is not IN were processed without error, and no later parameter that is not IN bears its
  name, then a failure to wrap its cursor makes \<open>CallProcedure\<close> return the wrap
  error with the name of \<open>p\<close>, and a failure of \<open>processRowsResult\<close> on its rows
  makes it return the processing error with the name of \<open>p\<close>, after the row set was
  closed; and \<open>processRowsResult\<close> fails when the columns cannot be read, when a row
  fails to scan, and when the iteration ends with an error.
\<close>

theorem result_processing_failure:
  fixes L :: "('f, 't) Lib"
  shows
  "openRows (snd (snd (CallProcedure L D s name params))) [] = [] \<and>
   (\<forall>args outs h s0 e s' tr.
      bindParams L params [] Map.empty 0 = Inr (args, outs) \<and>
      ExecContext D s (buildQuery name params) args = (Inr h, s0) \<and>
      CallProcedure L D s name params = (Inl e, s', tr) \<longrightarrow>
      (\<exists>ps1 p ps2 r1 s1 tr1 evs a.
         params = ps1 @ p # ps2 \<and>
         processLoop L D h outs ps1 Map.empty s0 [Exec (buildQuery name params) args] = (Inr r1, s1, tr1) \<and>
         processParam L D h outs p r1 s1 = (Inl e, s', evs) \<and>
         sublist (Name p) e \<and>
         outs (Name p) = Some (PRefCursor a) \<and>
         ((\<exists>e'. fst (WrapRefCursor D s1 (refCursors h a)) = Inl e' \<and>
                e = ''failed to wrap REF CURSOR for parameter '' @ Name p @ '': '' @ e') \<or>
          (\<exists>rows e'. fst (WrapRefCursor D s1 (refCursors h a)) = Inr (Some rows) \<and>
                fst (processRowsResult L rows) = Inl e' \<and>
                (\<exists>x. e' = ''failed to get columns: '' @ x \<or> e' = ''scan failed: '' @ x \<or>
                     e' = ''rows iteration error: '' @ x) \<and>
                e = ''failed to process REF CURSOR for parameter '' @ Name p @ '': '' @ e')))) \<and>
   (\<forall>args outs h s0 ps1 p ps2 r1 s1 tr1.
      bindParams L params [] Map.empty 0 = Inr (args, outs) \<and>
      ExecContext D s (buildQuery name params) args = (Inr h, s0) \<and>
      params = ps1 @ p # ps2 \<and>
      processLoop L D h outs ps1 Map.empty s0 [Exec (buildQuery name params) args] = (Inr r1, s1, tr1) \<and>
      ToUpper L (Direction p) \<noteq> ''IN'' \<and> isRefCursorType L p \<and>
      (\<forall>r\<in>set ps2. ToUpper L (Direction r) \<noteq> ''IN'' \<longrightarrow> Name r \<noteq> Name p) \<longrightarrow>
      (\<exists>a. outs (Name p) = Some (PRefCursor a) \<and>
         (\<forall>e' s2. WrapRefCursor D s1 (refCursors h a) = (Inl e', s2) \<longrightarrow>
            CallProcedure L D s name params =
              (Inl (''failed to wrap REF CURSOR for parameter '' @ Name p @ '': '' @ e'), s2,
               tr1 @ [Wrap (refCursors h a)])) \<and>
         (\<forall>rows s2 e'. WrapRefCursor D s1 (refCursors h a) = (Inr (Some rows), s2) \<and>
               fst (processRowsResult L rows) = Inl e' \<longrightarrow>
            CallProcedure L D s name params =
              (Inl (''failed to process REF CURSOR for parameter '' @ Name p @ '': '' @ e'), s2,
               tr1 @ [Wrap (refCursors h a), Acquired (rowsId rows), Closed (rowsId rows)])))) \<and>
   (\<forall>rows.
      (\<forall>x. Columns rows = Inl x \<longrightarrow>
         fst (processRowsResult L rows) = Inl (''failed to get columns: '' @ x)) \<and>
      (\<forall>cols vals x rest. Columns rows = Inr cols \<and> scans rows = map Inr vals @ Inl x # rest \<longrightarrow>
         fst (processRowsResult L rows) = Inl (''scan failed: '' @ x)) \<and>
      (\<forall>cols vals x. Columns rows = Inr cols \<and> scans rows = map Inr vals \<and> Err rows = Some x \<longrightarrow>
         fst (processRowsResult L rows) = Inl (''rows iteration error: '' @ x)))"
proof (intro conjI allI impI)
  show "openRows (snd (snd (CallProcedure L D s name params))) [] = []"
    by (rule CallProcedure_openRows)
next
  fix args outs h s0 e s' tr
  assume asm: "bindParams L params [] Map.empty 0 = Inr (args, outs) \<and>
      ExecContext D s (buildQuery name params) args = (Inr h, s0) \<and>
      CallProcedure L D s name params = (Inl e, s', tr)"
  then have b: "bindParams L params [] Map.empty 0 = Inr (args, outs)"
    and x: "ExecContext D s (buildQuery name params) args = (Inr h, s0)"
    and c: "CallProcedure L D s name params = (Inl e, s', tr)" by simp_all
  have "processLoop L D h outs params Map.empty s0 [Exec (buildQuery name params) args]
            = (Inl e, s', tr)"
    using c CallProcedure_after_exec[OF b x] by simp
  from processLoop_Inl[OF this] obtain ps1 p ps2 r1 s1 tr1 evs where
    1: "params = ps1 @ p # ps2"
    and 2: "processLoop L D h outs ps1 Map.empty s0 [Exec (buildQuery name params) args]
              = (Inr r1, s1, tr1)"
    and 3: "processParam L D h outs p r1 s1 = (Inl e, s', evs)" by blast
  have 4: "sublist (Name p) e" using 3 by (rule processParam_Inl_name)
  from processParam_Inl_kinds[OF 3] obtain a where
    5: "outs (Name p) = Some (PRefCursor a) \<and>
        ((\<exists>e'. fst (WrapRefCursor D s1 (refCursors h a)) = Inl e' \<and>
              e = ''failed to wrap REF CURSOR for parameter '' @ Name p @ '': '' @ e') \<or>
         (\<exists>rows e'. fst (WrapRefCursor D s1 (refCursors h a)) = Inr (Some rows) \<and>
              fst (processRowsResult L rows) = Inl e' \<and>
              (\<exists>x. e' = ''failed to get columns: '' @ x \<or> e' = ''scan failed: '' @ x \<or>
                   e' = ''rows iteration error: '' @ x) \<and>
              e = ''failed to process REF CURSOR for parameter '' @ Name p @ '': '' @ e'))"
    by blast
  show "\<exists>ps1 p ps2 r1 s1 tr1 evs a.
         params = ps1 @ p # ps2 \<and>
         processLoop L D h outs ps1 Map.empty s0 [Exec (buildQuery name params) args] = (Inr r1, s1, tr1) \<and>
         processParam L D h outs p r1 s1 = (Inl e, s', evs) \<and>
         sublist (Name p) e \<and>
         outs (Name p) = Some (PRefCursor a) \<and>
         ((\<exists>e'. fst (WrapRefCursor D s1 (refCursors h a)) = Inl e' \<and>
                e = ''failed to wrap REF CURSOR for parameter '' @ Name p @ '': '' @ e') \<or>
          (\<exists>rows e'. fst (WrapRefCursor D s1 (refCursors h a)) = Inr (Some rows) \<and>
                fst (processRowsResult L rows) = Inl e' \<and>
                (\<exists>x. e' = ''failed to get columns: '' @ x \<or> e' = ''scan failed: '' @ x \<or>
                     e' = ''rows iteration error: '' @ x) \<and>
                e = ''failed to process REF CURSOR for parameter '' @ Name p @ '': '' @ e'))"
    apply (intro exI conjI)
         apply (rule 1)
        apply (rule 2)
       apply (rule 3)
      apply (rule 4)
     apply (rule conjunct1[OF 5])
    apply (rule conjunct2[OF 5])
    done
next
  fix args outs h s0 ps1 p ps2 r1 s1 tr1
  assume asm: "bindParams L params [] Map.empty 0 = Inr (args, outs) \<and>
      ExecContext D s (buildQuery name params) args = (Inr h, s0) \<and>
      params = ps1 @ p # ps2 \<and>
      processLoop L D h outs ps1 Map.empty s0 [Exec (buildQuery name params) args] = (Inr r1, s1, tr1) \<and>
      ToUpper L (Direction p) \<noteq> ''IN'' \<and> isRefCursorType L p \<and>
      (\<forall>r\<in>set ps2. ToUpper L (Direction r) \<noteq> ''IN'' \<longrightarrow> Name r \<noteq> Name p)"
  note b = asm[THEN conjunct1]
  note x = asm[THEN conjunct2, THEN conjunct1]
  note sp = asm[THEN conjunct2, THEN conjunct2, THEN conjunct1]
  note pre = asm[THEN conjunct2, THEN conjunct2, THEN conjunct2, THEN conjunct1]
  note dir = asm[THEN conjunct2, THEN conjunct2, THEN conjunct2, THEN conjunct2, THEN conjunct1]
  note cur = asm[THEN conjunct2, THEN conjunct2, THEN conjunct2, THEN conjunct2, THEN conjunct2,
      THEN conjunct1]
  note lst = asm[THEN conjunct2, THEN conjunct2, THEN conjunct2, THEN conjunct2, THEN conjunct2,
      THEN conjunct2]
  have call: "CallProcedure L D s name params =
      processLoop L D h outs (ps1 @ p # ps2) Map.empty s0 [Exec (buildQuery name params) args]"
    using CallProcedure_after_exec[OF b x] sp by simp
  from bound_cursor_destination[OF b[unfolded sp] dir cur lst]
  obtain a where a: "outs (Name p) = Some (PRefCursor a)" by blast
  have w: "CallProcedure L D s name params =
              (Inl (''failed to wrap REF CURSOR for parameter '' @ Name p @ '': '' @ e'), s2,
               tr1 @ [Wrap (refCursors h a)])"
    if "WrapRefCursor D s1 (refCursors h a) = (Inl e', s2)" for e' s2
    using processLoop_fails_at[OF pre processParam_wrap_fails[where outs=outs and result=r1 and h=h, OF dir cur a that]] call by simp
  have r: "CallProcedure L D s name params =
              (Inl (''failed to process REF CURSOR for parameter '' @ Name p @ '': '' @ e'), s2,
               tr1 @ [Wrap (refCursors h a), Acquired (rowsId rows), Closed (rowsId rows)])"
    if "WrapRefCursor D s1 (refCursors h a) = (Inr (Some rows), s2) \<and>
        fst (processRowsResult L rows) = Inl e'" for rows s2 e'
  proof -
    from that have t1: "WrapRefCursor D s1 (refCursors h a) = (Inr (Some rows), s2)"
      and t2: "fst (processRowsResult L rows) = Inl e'" by simp_all
    show ?thesis
      using processLoop_fails_at[OF pre processParam_rows_fail[where outs=outs and result=r1 and h=h, OF dir cur a t1 t2]] call by simp
  qed
  show "\<exists>a. outs (Name p) = Some (PRefCursor a) \<and>
         (\<forall>e' s2. WrapRefCursor D s1 (refCursors h a) = (Inl e', s2) \<longrightarrow>
            CallProcedure L D s name params =
              (Inl (''failed to wrap REF CURSOR for parameter '' @ Name p @ '': '' @ e'), s2,
               tr1 @ [Wrap (refCursors h a)])) \<and>
         (\<forall>rows s2 e'. WrapRefCursor D s1 (refCursors h a) = (Inr (Some rows), s2) \<and>
               fst (processRowsResult L rows) = Inl e' \<longrightarrow>
            CallProcedure L D s name params =
              (Inl (''failed to process REF CURSOR for parameter '' @ Name p @ '': '' @ e'), s2,
               tr1 @ [Wrap (refCursors h a), Acquired (rowsId rows), Closed (rowsId rows)]))"
    using a w r by (intro exI[of _ a] conjI allI impI) assumption+
next
  fix rows :: "('f, 't) Rows" and x
  assume "Columns rows = Inl x"
  then show "fst (processRowsResult L rows) = Inl (''failed to get columns: '' @ x)"
    by (rule processRowsResult_columns_fail)
next
  fix rows :: "('f, 't) Rows" and cols vals x rest
  assume "Columns rows = Inr cols \<and> scans rows = map Inr vals @ Inl x # rest"
  then show "fst (processRowsResult L rows) = Inl (''scan failed: '' @ x)"
    by (simp add: processRowsResult_scan_fails)
next
  fix rows :: "('f, 't) Rows" and cols vals x
  assume "Columns rows = Inr cols \<and> scans rows = map Inr vals \<and> Err rows = Some x"
  then show "fst (processRowsResult L rows) = Inl (''rows iteration error: '' @ x)"
    by (simp add: processRowsResult_iteration_fails)
qed

text \<open>
  A cursor that cannot be wrapped, one whose second row fails to scan, and one whose
  iteration ends with an error.
\<close>

theorem result_processing_failure_witness:
  "CallProcedure goLib (fixedDB zeroHeap (\<lambda>k. Inl ''ORA-01001'') []) () ''list_reports''
     [param ''cur'' ''SYS_REFCURSOR'' VNil ''OUT'']
     = (Inl ''failed to wrap REF CURSOR for parameter cur: ORA-01001'', (),
        [Exec ''BEGIN list_reports(:cur); END;'' [(''cur'', AOut \<lparr>Dest = PRefCursor 0, Size = 0\<rparr>)],
         Wrap (RefCursor 0)]) \<and>
   CallProcedure goLib (fixedDB zeroHeap (\<lambda>k. Inr (Some brokenRows)) []) () ''list_reports''
     [param ''cur'' ''SYS_REFCURSOR'' VNil ''OUT'']
     = (Inl ''failed to process REF CURSOR for parameter cur: scan failed: bad row'', (),
        [Exec ''BEGIN list_reports(:cur); END;'' [(''cur'', AOut \<lparr>Dest = PRefCursor 0, Size = 0\<rparr>)],
         Wrap (RefCursor 0), Acquired 7, Closed 7]) \<and>
   CallProcedure goLib (fixedDB zeroHeap (\<lambda>k. Inr (Some interruptedRows)) []) () ''list_reports''
     [param ''cur'' ''SYS_REFCURSOR'' VNil ''OUT'']
     = (Inl ''failed to process REF CURSOR for parameter cur: rows iteration error: ORA-01013'', (),
        [Exec ''BEGIN list_reports(:cur); END;'' [(''cur'', AOut \<lparr>Dest = PRefCursor 0, Size = 0\<rparr>)],
         Wrap (RefCursor 0), Acquired 7, Closed 7]) \<and>
   openRows [Exec ''BEGIN list_reports(:cur); END;'' [(''cur'', AOut \<lparr>Dest = PRefCursor 0, Size = 0\<rparr>)],
         Wrap (RefCursor 0), Acquired 7, Closed 7 :: (real, string) event] [] = [] \<and>
   sublist ''cur'' ''failed to process REF CURSOR for parameter cur: scan failed: bad row''"
proof -
  let ?p = "param ''cur'' ''SYS_REFCURSOR'' VNil ''OUT''"
  let ?args = "[(''cur'', AOut \<lparr>Dest = PRefCursor 0, Size = 0\<rparr>)] :: (real, string) NamedArg list"
  let ?q = "''BEGIN list_reports(:cur); END;''"
  have fw:
    "(\<forall>e'. cursors 0 = Inl e' \<longrightarrow>
        CallProcedure goLib (fixedDB zeroHeap cursors []) () ''list_reports'' [?p] =
          (Inl (''failed to wrap REF CURSOR for parameter cur: '' @ e'), (),
           [Exec ?q ?args, Wrap (RefCursor 0)])) \<and>
     (\<forall>rows e'. cursors 0 = Inr (Some rows) \<and> fst (processRowsResult goLib rows) = Inl e' \<longrightarrow>
        CallProcedure goLib (fixedDB zeroHeap cursors []) () ''list_reports'' [?p] =
          (Inl (''failed to process REF CURSOR for parameter cur: '' @ e'), (),
           [Exec ?q ?args, Wrap (RefCursor 0), Acquired (rowsId rows), Closed (rowsId rows)]))"
    for cursors
  proof -
    let ?D = "fixedDB zeroHeap cursors []"
    have hyp: "bindParams goLib [?p] [] Map.empty 0 = Inr (?args, [''cur'' \<mapsto> PRefCursor 0]) \<and>
        ExecContext ?D () (buildQuery ''list_reports'' [?p]) ?args = (Inr zeroHeap, ()) \<and>
        [?p] = [] @ ?p # [] \<and>
        processLoop goLib ?D zeroHeap [''cur'' \<mapsto> PRefCursor 0] [] Map.empty ()
          [Exec (buildQuery ''list_reports'' [?p]) ?args]
          = (Inr Map.empty, (), [Exec (buildQuery ''list_reports'' [?p]) ?args]) \<and>
        ToUpper goLib (Direction ?p) \<noteq> ''IN'' \<and> isRefCursorType goLib ?p \<and>
        (\<forall>r\<in>set []. ToUpper goLib (Direction r) \<noteq> ''IN'' \<longrightarrow> Name r \<noteq> Name ?p)"
      by (simp add: callEvals)
    note c = result_processing_failure[of goLib ?D "()" "''list_reports''" "[?p]",
        THEN conjunct2, THEN conjunct2, THEN conjunct1, rule_format, OF hyp]
    then obtain a where ac: "[''cur'' \<mapsto> PRefCursor 0] (Name ?p) = Some (PRefCursor a) \<and>
      (\<forall>e' s2. WrapRefCursor ?D () (refCursors zeroHeap a) = (Inl e', s2) \<longrightarrow>
            CallProcedure goLib ?D () ''list_reports'' [?p] =
              (Inl (''failed to wrap REF CURSOR for parameter '' @ Name ?p @ '': '' @ e'), s2,
               [Exec (buildQuery ''list_reports'' [?p]) ?args] @ [Wrap (refCursors zeroHeap a)])) \<and>
      (\<forall>rows s2 e'. WrapRefCursor ?D () (refCursors zeroHeap a) = (Inr (Some rows), s2) \<and>
               fst (processRowsResult goLib rows) = Inl e' \<longrightarrow>
            CallProcedure goLib ?D () ''list_reports'' [?p] =
              (Inl (''failed to process REF CURSOR for parameter '' @ Name ?p @ '': '' @ e'), s2,
               [Exec (buildQuery ''list_reports'' [?p]) ?args] @
               [Wrap (refCursors zeroHeap a), Acquired (rowsId rows), Closed (rowsId rows)]))"
      ..
    note a = ac[THEN conjunct1] and w = ac[THEN conjunct2, THEN conjunct1]
      and r = ac[THEN conjunct2, THEN conjunct2]
    from a have a0: "a = 0" by (simp add: param_def)
    have rc: "refCursors zeroHeap 0 = RefCursor 0" by (simp add: zeroHeap_def)
    have wr: "WrapRefCursor ?D () (RefCursor 0) = (cursors 0, ())"
      by (simp add: fixedDB_def)
    show ?thesis
    proof (intro conjI allI impI)
      fix e'
      assume e: "cursors 0 = Inl e'"
      have "WrapRefCursor ?D () (refCursors zeroHeap a) = (Inl e', ())"
        using wr e by (simp add: a0 rc)
      from w[rule_format, OF this]
      show "CallProcedure goLib (fixedDB zeroHeap cursors []) () ''list_reports'' [?p] =
          (Inl (''failed to wrap REF CURSOR for parameter cur: '' @ e'), (),
           [Exec ?q ?args, Wrap (RefCursor 0)])"
        by (simp add: a0 rc param_def buildQuery_def)
    next
      fix rows e'
      assume e: "cursors 0 = Inr (Some rows) \<and> fst (processRowsResult goLib rows) = Inl e'"
      have "WrapRefCursor ?D () (refCursors zeroHeap a) = (Inr (Some rows), ()) \<and>
            fst (processRowsResult goLib rows) = Inl e'"
        using wr e by (simp add: a0 rc)
      from r[rule_format, OF this]
      show "CallProcedure goLib (fixedDB zeroHeap cursors []) () ''list_reports'' [?p] =
          (Inl (''failed to process REF CURSOR for parameter cur: '' @ e'), (),
           [Exec ?q ?args, Wrap (RefCursor 0), Acquired (rowsId rows), Closed (rowsId rows)])"
        by (simp add: a0 rc param_def buildQuery_def)
    qed
  qed
  have 1: "CallProcedure goLib (fixedDB zeroHeap (\<lambda>k. Inl ''ORA-01001'') []) () ''list_reports'' [?p]
     = (Inl ''failed to wrap REF CURSOR for parameter cur: ORA-01001'', (),
        [Exec ?q ?args, Wrap (RefCursor 0)])"
  proof -
    have "(\<lambda>k::nat. Inl ''ORA-01001'' :: error + (real, string) Rows option) 0 = Inl ''ORA-01001''"
      by simp
    from fw[of "\<lambda>k. Inl ''ORA-01001''", THEN conjunct1, rule_format, OF this]
    show ?thesis by simp
  qed
  note d = result_processing_failure[of goLib "fixedDB zeroHeap (\<lambda>k. Inl ''ORA-01001'') []" "()"
      "''list_reports''" "[?p]", THEN conjunct2, THEN conjunct2, THEN conjunct2]
  have sc: "fst (processRowsResult goLib brokenRows) = Inl (''scan failed: '' @ ''bad row'')"
  proof -
    have "Columns brokenRows = Inr [''ID'', ''NAME'', ''CREATED''] \<and>
          scans brokenRows = map Inr [\<lambda>i. VNil] @ Inl ''bad row'' # []"
      by (simp add: brokenRows_def exampleRows_def)
    from d[rule_format, THEN conjunct2, THEN conjunct1, rule_format, OF this]
    show ?thesis .
  qed
  have it: "fst (processRowsResult goLib interruptedRows) = Inl (''rows iteration error: '' @ ''ORA-01013'')"
  proof -
    have "Columns interruptedRows = Inr [''ID'', ''NAME'', ''CREATED''] \<and>
          scans interruptedRows =
            map Inr [\<lambda>i. [VInt64 1, VBytes ''Alice'', VTime ''2024-01-02T03:04:05Z''] ! i,
                     \<lambda>i. [VInt64 2, VNil, VString ''n/a''] ! i] \<and>
          Err interruptedRows = Some ''ORA-01013''"
      by (simp add: interruptedRows_def exampleRows_def)
    from d[rule_format, THEN conjunct2, THEN conjunct2, rule_format, OF this]
    show ?thesis .
  qed
  have id7: "rowsId brokenRows = 7" "rowsId interruptedRows = 7"
    by (simp_all add: brokenRows_def interruptedRows_def exampleRows_def)
  have 2: "CallProcedure goLib (fixedDB zeroHeap (\<lambda>k. Inr (Some brokenRows)) []) () ''list_reports'' [?p]
     = (Inl ''failed to process REF CURSOR for parameter cur: scan failed: bad row'', (),
        [Exec ?q ?args, Wrap (RefCursor 0), Acquired 7, Closed 7])"
  proof -
    have "(\<lambda>k::nat. Inr (Some brokenRows) :: error + (real, string) Rows option) 0 = Inr (Some brokenRows) \<and>
          fst (processRowsResult goLib brokenRows) = Inl (''scan failed: '' @ ''bad row'')"
      using sc by simp
    from fw[of "\<lambda>k. Inr (Some brokenRows)", THEN conjunct2, rule_format, OF this]
    show ?thesis by (simp add: id7)
  qed
  have 3: "CallProcedure goLib (fixedDB zeroHeap (\<lambda>k. Inr (Some interruptedRows)) []) () ''list_reports'' [?p]
     = (Inl ''failed to process REF CURSOR for parameter cur: rows iteration error: ORA-01013'', (),
        [Exec ?q ?args, Wrap (RefCursor 0), Acquired 7, Closed 7])"
  proof -
    have "(\<lambda>k::nat. Inr (Some interruptedRows) :: error + (real, string) Rows option) 0
            = Inr (Some interruptedRows) \<and>
          fst (processRowsResult goLib interruptedRows) = Inl (''rows iteration error: '' @ ''ORA-01013'')"
      using it by simp
    from fw[of "\<lambda>k. Inr (Some interruptedRows)", THEN conjunct2, rule_format, OF this]
    show ?thesis by (simp add: id7)
  qed
  note t = result_processing_failure[of goLib "fixedDB zeroHeap (\<lambda>k. Inr (Some brokenRows)) []" "()"
      "''list_reports''" "[?p]"]
  from t have "openRows (snd (snd (CallProcedure goLib
      (fixedDB zeroHeap (\<lambda>k. Inr (Some brokenRows)) []) () ''list_reports'' [?p]))) [] = []"
    by (rule conjunct1)
  then have o: "openRows [Exec ?q ?args, Wrap (RefCursor 0), Acquired 7, Closed 7 :: (real, string) event] [] = []"
    by (simp only: 2 snd_conv)
  have b: "bindParams goLib [?p] [] Map.empty 0 = Inr (?args, [''cur'' \<mapsto> PRefCursor 0])"
    by (simp add: callEvals)
  have x: "ExecContext (fixedDB zeroHeap (\<lambda>k. Inr (Some brokenRows)) []) ()
             (buildQuery ''list_reports'' [?p]) ?args = (Inr zeroHeap, ())"
    by (simp add: fixedDB_def)
  have bx2: "bindParams goLib [?p] [] Map.empty 0 = Inr (?args, [''cur'' \<mapsto> PRefCursor 0]) \<and>
      ExecContext (fixedDB zeroHeap (\<lambda>k. Inr (Some brokenRows)) []) ()
             (buildQuery ''list_reports'' [?p]) ?args = (Inr zeroHeap, ()) \<and>
      CallProcedure goLib (fixedDB zeroHeap (\<lambda>k. Inr (Some brokenRows)) []) () ''list_reports'' [?p]
        = (Inl ''failed to process REF CURSOR for parameter cur: scan failed: bad row'', (),
           [Exec ?q ?args, Wrap (RefCursor 0), Acquired 7, Closed 7])"
    using b x 2 by (intro conjI)
  from t[THEN conjunct2, THEN conjunct1, rule_format, OF bx2]
  obtain ps1 p ps2 where sp: "[?p] = ps1 @ p # ps2"
    and sl: "sublist (Name p) ''failed to process REF CURSOR for parameter cur: scan failed: bad row''"
    by blast
  from sp have "p = ?p" by (simp add: Cons_eq_append_conv)
  with sl have n: "sublist ''cur'' ''failed to process REF CURSOR for parameter cur: scan failed: bad row''"
    by (simp add: param_def)
  show ?thesis using 1 2 3 o n by (intro conjI)
qed

section \<open>Validation of a request\<close>

text \<open>
  Claim C9. \<open>Validate\<close> returns the error \<open>procedure name is required\<close> when the
  procedure name is blank. It returns no error exactly when the name is not blank and
  every parameter entry has its name, type and direction all blank or all non-blank.
  With a non-blank procedure name, an error is the one of the first entry that has a
  blank field beside a non-blank one, and names the entry's index and its first blank
  field.
\<close>

theorem Validate_blank_fields:
  "(blank L (ReqName r) \<longrightarrow> Validate L r = Some ''procedure name is required'') \<and>
   (Validate L r = None \<longleftrightarrow>
      \<not> blank L (ReqName r) \<and> (\<forall>p\<in>set (Params r). allBlank L p \<or> noneBlank L p)) \<and>
   (\<forall>e. \<not> blank L (ReqName r) \<and> Validate L r = Some e \<longrightarrow>
      (\<exists>k<length (Params r).
         \<not> allBlank L (Params r ! k) \<and> \<not> noneBlank L (Params r ! k) \<and>
         (\<forall>j<k. allBlank L (Params r ! j) \<or> noneBlank L (Params r ! j)) \<and>
         e = ''param['' @ Sprintf_d L k @ ''] '' @
             (if blank L (Name (Params r ! k)) then ''name''
              else if blank L (Type (Params r ! k)) then ''type'' else ''direction'') @
             '' is required''))"
proof (intro conjI allI impI)
  assume "blank L (ReqName r)"
  then show "Validate L r = Some ''procedure name is required''"
    by (simp add: Validate_def blank_def)
next
  show "Validate L r = None \<longleftrightarrow>
      \<not> blank L (ReqName r) \<and> (\<forall>p\<in>set (Params r). allBlank L p \<or> noneBlank L p)"
    by (simp add: Validate_def blank_def validateParams_None_iff)
next
  fix e
  assume "\<not> blank L (ReqName r) \<and> Validate L r = Some e"
  then have "validateParams L (Params r) 0 = Some e"
    by (auto simp: Validate_def blank_def)
  from validateParams_Some[OF this] show "\<exists>k<length (Params r).
         \<not> allBlank L (Params r ! k) \<and> \<not> noneBlank L (Params r ! k) \<and>
         (\<forall>j<k. allBlank L (Params r ! j) \<or> noneBlank L (Params r ! j)) \<and>
         e = ''param['' @ Sprintf_d L k @ ''] '' @
             (if blank L (Name (Params r ! k)) then ''name''
              else if blank L (Type (Params r ! k)) then ''type'' else ''direction'') @
             '' is required''" by simp
qed

text \<open>
  A blank procedure name; an entry that is blank throughout beside a complete one; an
  entry with a blank type.
\<close>

theorem Validate_blank_fields_witness:
  "Validate goLib \<lparr>ReqName = ''  '', Params = []\<rparr> = Some ''procedure name is required'' \<and>
   Validate goLib \<lparr>ReqName = ''add_employee'',
       Params = [param '' '' [] VNil ''  '', param ''emp_id'' ''NUMBER'' VNil ''OUT'']\<rparr> = None \<and>
   Validate goLib \<lparr>ReqName = ''add_employee'',
       Params = [param [] [] VNil [], param ''emp_id'' '' '' VNil ''OUT'']\<rparr>
     = Some ''param[1] type is required''"
proof -
  let ?r1 = "\<lparr>ReqName = ''  '', Params = []\<rparr> :: (real, string) CallProcedureRequest"
  let ?r2 = "\<lparr>ReqName = ''add_employee'',
       Params = [param '' '' [] VNil ''  '', param ''emp_id'' ''NUMBER'' VNil ''OUT'']\<rparr>"
  let ?r3 = "\<lparr>ReqName = ''add_employee'',
       Params = [param [] [] VNil [], param ''emp_id'' '' '' VNil ''OUT'']\<rparr>"
  have b1: "blank goLib (ReqName ?r1)" by (simp add: validateEvals)
  from Validate_blank_fields[of goLib ?r1] b1
  have 1: "Validate goLib ?r1 = Some ''procedure name is required''" by blast
  have b2: "\<not> blank goLib (ReqName ?r2) \<and> (\<forall>p\<in>set (Params ?r2). allBlank goLib p \<or> noneBlank goLib p)"
    by (simp add: validateEvals)
  from Validate_blank_fields[of goLib ?r2] b2
  have 2: "Validate goLib ?r2 = None" by blast
  have 3: "Validate goLib ?r3 = Some ''param[1] type is required''"
    by (simp add: validateEvals showDigit_def)
  show ?thesis using 1 2 3 by simp
qed

section \<open>Rows of \<open>GetProcedureInfo\<close>\<close>

text \<open>
  Claim C10. When \<open>GetProcedureInfo\<close> returns rows, there is one mapping per catalog
  row, no value in them is null, and a column that is SQL NULL appears as the empty
  string (as 0 for \<open>position\<close>); when the query matches no rows the result is the
  empty sequence and no error.
\<close>

theorem GetProcedureInfo_rows:
  fixes D :: "('f, 't, 's) DB"
  shows
  "(\<forall>out s' tr. GetProcedureInfo D s procedureName = (Inr out, s', tr) \<longrightarrow>
      (\<exists>cs. fst (QueryContext D s procedureInfoQuery [VString procedureName]) = Inr (map Inr cs) \<and>
            out = map infoRow cs \<and>
            (\<forall>row\<in>set out. \<forall>k. row k \<noteq> Some VNil))) \<and>
   (\<forall>c. (infoRow c :: string \<rightharpoonup> ('f, 't) gval) =
     [''argument_name'' \<mapsto> VString (case ARGUMENT_NAME c of None \<Rightarrow> [] | Some x \<Rightarrow> x),
      ''data_type'' \<mapsto> VString (case DATA_TYPE c of None \<Rightarrow> [] | Some x \<Rightarrow> x),
      ''in_out'' \<mapsto> VString (case IN_OUT c of None \<Rightarrow> [] | Some x \<Rightarrow> x),
      ''position'' \<mapsto> VInt64 (case POSITION c of None \<Rightarrow> 0 | Some x \<Rightarrow> x),
      ''default_value'' \<mapsto> VString (case DEFAULT_VALUE c of None \<Rightarrow> [] | Some x \<Rightarrow> x)]) \<and>
   (\<forall>s'. QueryContext D s procedureInfoQuery [VString procedureName] = (Inr [], s') \<longrightarrow>
      fst (GetProcedureInfo D s procedureName) = Inr [])"
proof (intro conjI allI impI)
  fix out :: "(string \<rightharpoonup> ('f, 't) gval) list" and s' tr
  assume g: "GetProcedureInfo D s procedureName = (Inr out, s', tr)"
  obtain q s1 where q: "QueryContext D s procedureInfoQuery [VString procedureName] = (q, s1)"
    by (cases "QueryContext D s procedureInfoQuery [VString procedureName]")
  show "\<exists>cs. fst (QueryContext D s procedureInfoQuery [VString procedureName]) = Inr (map Inr cs) \<and>
            out = map infoRow cs \<and> (\<forall>row\<in>set out. \<forall>k. row k \<noteq> Some VNil)"
  proof (cases q)
    case (Inl e)
    then show ?thesis using g q by (simp add: GetProcedureInfo_def)
  next
    case (Inr scs)
    then have "scanInfoRows scs [] = Inr out" using g q by (simp add: GetProcedureInfo_def)
    from scanInfoRows_Inr[OF this] obtain cs where cs: "scs = map Inr cs" "out = map infoRow cs"
      by auto
    have "\<forall>row\<in>set out. \<forall>k. row k \<noteq> Some VNil"
      using cs(2) infoRow_no_nil by auto
    then show ?thesis using cs q Inr by auto
  qed
next
  fix c
  show "(infoRow c :: string \<rightharpoonup> ('f, 't) gval) =
     [''argument_name'' \<mapsto> VString (case ARGUMENT_NAME c of None \<Rightarrow> [] | Some x \<Rightarrow> x),
      ''data_type'' \<mapsto> VString (case DATA_TYPE c of None \<Rightarrow> [] | Some x \<Rightarrow> x),
      ''in_out'' \<mapsto> VString (case IN_OUT c of None \<Rightarrow> [] | Some x \<Rightarrow> x),
      ''position'' \<mapsto> VInt64 (case POSITION c of None \<Rightarrow> 0 | Some x \<Rightarrow> x),
      ''default_value'' \<mapsto> VString (case DEFAULT_VALUE c of None \<Rightarrow> [] | Some x \<Rightarrow> x)]"
    by (rule infoRow_values)
next
  fix s'
  assume "QueryContext D s procedureInfoQuery [VString procedureName] = (Inr [], s')"
  then show "fst (GetProcedureInfo D s procedureName) = Inr []"
    by (simp add: GetProcedureInfo_def)
qed

text \<open>
  A catalog row with a NULL default value, a row of NULLs, and the empty catalog.
\<close>

theorem GetProcedureInfo_rows_witness:
  "fst (GetProcedureInfo
          (fixedDB zeroHeap (\<lambda>k. Inr None)
             [Inr \<lparr>ARGUMENT_NAME = Some ''P_ID'', DATA_TYPE = Some ''NUMBER'', IN_OUT = Some ''IN'',
                    POSITION = Some 1, DEFAULT_VALUE = None\<rparr>,
              Inr \<lparr>ARGUMENT_NAME = None, DATA_TYPE = None, IN_OUT = None,
                    POSITION = None, DEFAULT_VALUE = None\<rparr>])
          () ''get_employee'')
     = Inr [[''argument_name'' \<mapsto> VString ''P_ID'', ''data_type'' \<mapsto> VString ''NUMBER'',
             ''in_out'' \<mapsto> VString ''IN'', ''position'' \<mapsto> VInt64 1,
             ''default_value'' \<mapsto> VString []],
            [''argument_name'' \<mapsto> VString [], ''data_type'' \<mapsto> VString [],
             ''in_out'' \<mapsto> VString [], ''position'' \<mapsto> VInt64 0,
             ''default_value'' \<mapsto> VString []]] \<and>
   fst (GetProcedureInfo (fixedDB zeroHeap (\<lambda>k. Inr None) []) () ''nonexistent_procedure'') = Inr []"
proof -
  let ?c1 = "\<lparr>ARGUMENT_NAME = Some ''P_ID'', DATA_TYPE = Some ''NUMBER'', IN_OUT = Some ''IN'',
                    POSITION = Some 1, DEFAULT_VALUE = None\<rparr>"
  let ?c2 = "\<lparr>ARGUMENT_NAME = None, DATA_TYPE = None, IN_OUT = None,
                    POSITION = None, DEFAULT_VALUE = None\<rparr>"
  let ?D = "fixedDB zeroHeap (\<lambda>k. Inr None) [Inr ?c1, Inr ?c2]"
  let ?E = "fixedDB zeroHeap (\<lambda>k. Inr None) []"
  note t = GetProcedureInfo_rows[of ?D "()" "''get_employee''"]
  obtain out s' tr where g: "GetProcedureInfo ?D () ''get_employee'' = (Inr out, s', tr)"
    by (simp add: GetProcedureInfo_def fixedDB_def)
  with t obtain cs where
    cs: "fst (QueryContext ?D () procedureInfoQuery [VString ''get_employee'']) = Inr (map Inr cs)"
    and o: "out = map infoRow cs" by blast
  from cs have "cs = [?c1, ?c2]" by (auto simp: fixedDB_def Cons_eq_map_conv)
  with o t have "out =
     [[''argument_name'' \<mapsto> VString ''P_ID'', ''data_type'' \<mapsto> VString ''NUMBER'',
             ''in_out'' \<mapsto> VString ''IN'', ''position'' \<mapsto> VInt64 1,
             ''default_value'' \<mapsto> VString []],
            [''argument_name'' \<mapsto> VString [], ''data_type'' \<mapsto> VString [],
             ''in_out'' \<mapsto> VString [], ''position'' \<mapsto> VInt64 0,
             ''default_value'' \<mapsto> VString []]]"
    by simp
  with g have 1: "fst (GetProcedureInfo ?D () ''get_employee'') =
     Inr [[''argument_name'' \<mapsto> VString ''P_ID'', ''data_type'' \<mapsto> VString ''NUMBER'',
             ''in_out'' \<mapsto> VString ''IN'', ''position'' \<mapsto> VInt64 1,
             ''default_value'' \<mapsto> VString []],
            [''argument_name'' \<mapsto> VString [], ''data_type'' \<mapsto> VString [],
             ''in_out'' \<mapsto> VString [], ''position'' \<mapsto> VInt64 0,
             ''default_value'' \<mapsto> VString []]]"
    by simp
  note u = GetProcedureInfo_rows[of ?E "()" "''nonexistent_procedure''"]
  have q: "QueryContext ?E () procedureInfoQuery [VString ''nonexistent_procedure''] = (Inr [], ())"
    by (simp add: fixedDB_def)
  from u q have 2: "fst (GetProcedureInfo ?E () ''nonexistent_procedure'') = Inr []"
    by blast
  show ?thesis using 1 2 by (rule conjI)
qed

end
